theory Spec2Isabelle
  imports Complex_Main "HOL-Library.Multiset"
begin

section \<open>Go values\<close>

text \<open>
  Go's \<open>int\<close> and \<open>int64\<close> are 64-bit two's-complement integers on the platforms the
  proxy is built for. They are modelled as \<open>int\<close>, and every addition and subtraction
  of the source is followed by \<open>wrap64\<close>, which brings the result back into the
  64-bit range the way the machine does.
\<close>

definition wrap64 :: "int \<Rightarrow> int" where
  "wrap64 x = (x + 2 ^ 63) mod 2 ^ 64 - 2 ^ 63"

definition in64 :: "int \<Rightarrow> bool" where
  "in64 x \<longleftrightarrow> - (2 ^ 63) \<le> x \<and> x < 2 ^ 63"

text \<open>Go's \<open>error\<close> values are modelled by their message.\<close>

type_synonym error = string

subsection \<open>strconv.Atoi and strings.Split\<close>

text \<open>
  \<open>strconv.Atoi\<close> accepts an optional sign followed by at least one decimal digit and
  fails on anything else, and on a value outside the range of \<open>int\<close>.
\<close>

definition is_digit :: "char \<Rightarrow> bool" where
  "is_digit c \<longleftrightarrow> (48::nat) \<le> of_char c \<and> of_char c \<le> (57::nat)"

definition digits_value :: "string \<Rightarrow> int" where
  "digits_value ds = foldl (\<lambda>n ch. n * 10 + int (of_char ch - 48)) 0 ds"

definition Atoi :: "string \<Rightarrow> int option" where
  "Atoi s =
     (let neg = (s \<noteq> [] \<and> hd s = CHR ''-'');
          ds = (if s \<noteq> [] \<and> (hd s = CHR ''-'' \<or> hd s = CHR ''+'') then tl s else s);
          n = (if neg then - digits_value ds else digits_value ds)
      in if ds = [] \<or> \<not> list_all is_digit ds \<or> \<not> in64 n then None else Some n)"

text \<open>\<open>strings.Split(s, ":")[0]\<close>: the part of \<open>s\<close> before its first colon.\<close>

definition split_colon_first :: "string \<Rightarrow> string" where
  "split_colon_first s = takeWhile (\<lambda>c. c \<noteq> CHR '':'') s"

section \<open>The sliding-window rate limiter\<close>

text \<open>
  The window of an instance is a Redis sorted set. An entry is a member
  \<open>"<tokens>:<nanos>"\<close> with its score; \<open>UpdateUsage\<close> writes the score
  \<open>float64(currentTime.Unix())\<close>, a whole number of seconds, so scores are modelled
  as \<open>int\<close>. Redis is either unreachable (every command of a pipeline fails) or
  holds one sorted set for each key.
\<close>

type_synonym Z = "string \<times> int"

record Redis =
  reachable :: bool
  zsets :: "string \<Rightarrow> Z list"

record RateLimiter =
  instanceID :: string
  tokensPerMinute :: int
  maxInputTokens :: int
  windowSeconds :: int
  redisKey :: string

definition NewRateLimiter :: "string \<Rightarrow> int \<Rightarrow> int \<Rightarrow> RateLimiter" where
  "NewRateLimiter iid tpm maxIn =
     \<lparr>instanceID = iid, tokensPerMinute = tpm, maxInputTokens = maxIn, windowSeconds = 60,
      redisKey = ''instance:rate_limit:window:'' @ iid\<rparr>"

text \<open>\<open>ZREMRANGEBYSCORE key -inf cutoff\<close> removes the entries with score at most \<open>cutoff\<close>.\<close>

definition ZRemRangeByScore :: "int \<Rightarrow> Z list \<Rightarrow> Z list" where
  "ZRemRangeByScore cutoff zs = filter (\<lambda>e. \<not> snd e \<le> cutoff) zs"

text \<open>
  The pipeline of \<open>CheckCapacity\<close>: evict, then read the whole set. \<open>Exec\<close> fails when
  Redis is unreachable; otherwise it returns the entries read and the store after eviction.
\<close>

definition check_pipeline :: "string \<Rightarrow> int \<Rightarrow> Redis \<Rightarrow> error + (Z list \<times> Redis)" where
  "check_pipeline key cutoff r =
     (if \<not> reachable r then Inl ''redis: pipeline failed''
      else let kept = ZRemRangeByScore cutoff (zsets r key)
           in Inr (kept, r\<lparr>zsets := (zsets r)(key := kept)\<rparr>))"

text \<open>The loop over the entries: running usage and oldest time, invalid members skipped.\<close>

fun usage_loop :: "Z list \<Rightarrow> int \<Rightarrow> int \<Rightarrow> int \<times> int" where
  "usage_loop [] currentUsage oldestTime = (currentUsage, oldestTime)"
| "usage_loop (entry # entries) currentUsage oldestTime =
     (case Atoi (split_colon_first (fst entry)) of
        None \<Rightarrow> usage_loop entries currentUsage oldestTime
      | Some tokenCount \<Rightarrow>
          usage_loop entries (wrap64 (currentUsage + tokenCount))
            (if snd entry < oldestTime then snd entry else oldestTime))"

text \<open>
  \<open>CheckCapacity\<close> returns Go's triple (admit, retry-after, error) and the store.
  \<open>currentTime\<close> is \<open>time.Now().Unix()\<close>.
\<close>

definition CheckCapacity ::
  "RateLimiter \<Rightarrow> int \<Rightarrow> Redis \<Rightarrow> int \<Rightarrow> (bool \<times> int \<times> error option) \<times> Redis" where
  "CheckCapacity rl currentTime r tokens =
     (if maxInputTokens rl > 0 \<and> tokens > maxInputTokens rl then ((False, 60, None), r)
      else
        let cutoff = wrap64 (currentTime - windowSeconds rl) in
        case check_pipeline (redisKey rl) cutoff r of
          Inl err \<Rightarrow> ((True, 0, None), r)
        | Inr (entries, r') \<Rightarrow>
            let (currentUsage, oldestTime) = usage_loop entries 0 currentTime in
            if wrap64 (currentUsage + tokens) > tokensPerMinute rl then
              let retryAfter = wrap64 (oldestTime - cutoff) in
              ((False, if retryAfter < 1 then 1 else retryAfter, None), r')
            else ((True, 0, None), r'))"

text \<open>
  The quantities the admission decision is described with: the entries that survive the
  eviction at \<open>now - 60\<close>, the token part of an entry (absent when the member does
  not start with an integer), the sum of the token parts, and the oldest time: the least
  of \<open>now\<close> and the scores of the entries that have a token part.
\<close>

definition remaining_entries :: "int \<Rightarrow> Z list \<Rightarrow> Z list" where
  "remaining_entries now zs = filter (\<lambda>e. snd e > now - 60) zs"

definition token_part :: "Z \<Rightarrow> int option" where
  "token_part e = Atoi (split_colon_first (fst e))"

definition current_usage :: "Z list \<Rightarrow> int" where
  "current_usage es = (\<Sum>e\<leftarrow>es. case token_part e of None \<Rightarrow> 0 | Some t \<Rightarrow> t)"

definition oldest_time :: "int \<Rightarrow> Z list \<Rightarrow> int" where
  "oldest_time now es = Min (insert now (snd ` {e \<in> set es. token_part e \<noteq> None}))"


text \<open>
  The retry-after of a denial in the wording of the specification: the score of the oldest
  entry left in the window, minus \<open>now - 60\<close>, and at least 1.
\<close>

definition claimed_retry_after :: "int \<Rightarrow> Z list \<Rightarrow> int" where
  "claimed_retry_after now es = max 1 (Min (snd ` set es) - (now - 60))"

text \<open>
  A limiter for instance \<open>A\<close> with \<open>max_tpm = 100\<close> and no per-request cap, a
  reachable store whose window for \<open>A\<close> holds the given entries, and an unreachable
  store.
\<close>

definition limiterA :: RateLimiter where
  "limiterA = NewRateLimiter ''A'' 100 0"

definition redis_with :: "Z list \<Rightarrow> Redis" where
  "redis_with zs = \<lparr>reachable = True, zsets = (\<lambda>k. [])(redisKey limiterA := zs)\<rparr>"

definition redis_down :: Redis where
  "redis_down = \<lparr>reachable = False, zsets = (\<lambda>k. [])\<rparr>"

section \<open>Strings and JSON values\<close>

text \<open>
  Strings are byte strings. \<open>strings.ToLower\<close> is modelled on the ASCII letters
  (Go also maps letters outside ASCII, which no model name of the proxy contains): an
  upper-case letter gets the bit of value 32 set.
\<close>

definition to_lower_char :: "char \<Rightarrow> char" where
  "to_lower_char c =
     (if (65::nat) \<le> of_char c \<and> of_char c \<le> (90::nat)
      then (case c of Char b0 b1 b2 b3 b4 b5 b6 b7 \<Rightarrow> Char b0 b1 b2 b3 b4 True b6 b7)
      else c)"

definition ToLower :: "string \<Rightarrow> string" where
  "ToLower s = map to_lower_char s"

definition HasPrefix :: "string \<Rightarrow> string \<Rightarrow> bool" where
  "HasPrefix s p \<longleftrightarrow> take (length p) s = p"

definition Contains :: "string \<Rightarrow> string \<Rightarrow> bool" where
  "Contains s sub \<longleftrightarrow> list_ex (\<lambda>i. HasPrefix (drop i s) sub) [0..<Suc (length s)]"

text \<open>
  A value of type \<open>interface{}\<close> as \<open>encoding/json\<close> decodes it (numbers are
  \<open>float64\<close>, modelled by the real they denote), and \<open>JInt\<close> for a Go \<open>int\<close> that
  the proxy itself stores in a map. A \<open>map[string]interface{}\<close> at the top level is
  a map; a nested object is a list of its fields, read with \<open>map_of\<close>.
\<close>

datatype json =
    JNull
  | JBool bool
  | JNum real
  | JInt int
  | JStr string
  | JArr "json list"
  | JObj "(string \<times> json) list"

type_synonym jmap = "string \<rightharpoonup> json"

text \<open>
  The conversion \<open>int(f)\<close> of a \<open>float64\<close>: truncation towards zero; outside the
  64-bit range the amd64 conversion yields the least \<open>int64\<close>.
\<close>

definition trunc_real :: "real \<Rightarrow> int" where
  "trunc_real x = (if 0 \<le> x then \<lfloor>x\<rfloor> else \<lceil>x\<rceil>)"

definition float_to_int :: "real \<Rightarrow> int" where
  "float_to_int x = (if in64 (trunc_real x) then trunc_real x else - (2 ^ 63))"

text \<open>\<open>fmt.Sprintf("%d", n)\<close>.\<close>

fun digits_of :: "nat \<Rightarrow> string" where
  "digits_of n =
     (if n < 10 then [char_of (48 + n)] else digits_of (n div 10) @ [char_of (48 + n mod 10)])"

declare digits_of.simps [simp del]

definition Sprintf_d :: "int \<Rightarrow> string" where
  "Sprintf_d n = (if n < 0 then CHR ''-'' # digits_of (nat (- n)) else digits_of (nat n))"

section \<open>Proxy errors\<close>

datatype ErrorType = ErrorTypeClient | ErrorTypeUpstream | ErrorTypeInstance | ErrorTypeInternal

record ProxyError =
  Type :: ErrorType
  Message :: string
  StatusCode :: int
  Details :: "jmap option"
  Timestamp :: int

definition NewClientError :: "string \<Rightarrow> int \<Rightarrow> jmap \<Rightarrow> int \<Rightarrow> ProxyError" where
  "NewClientError message statusCode details now =
     \<lparr>Type = ErrorTypeClient, Message = message, StatusCode = statusCode,
      Details = Some details, Timestamp = now\<rparr>"

definition NewUpstreamError :: "string \<Rightarrow> int \<Rightarrow> jmap \<Rightarrow> int \<Rightarrow> ProxyError" where
  "NewUpstreamError message statusCode details now =
     \<lparr>Type = ErrorTypeUpstream, Message = message, StatusCode = statusCode,
      Details = Some details, Timestamp = now\<rparr>"

definition NewInstanceError :: "string \<Rightarrow> jmap \<Rightarrow> int \<Rightarrow> ProxyError" where
  "NewInstanceError message details now =
     \<lparr>Type = ErrorTypeInstance, Message = message, StatusCode = 503,
      Details = Some details, Timestamp = now\<rparr>"

definition NewInternalError :: "string \<Rightarrow> jmap \<Rightarrow> int \<Rightarrow> ProxyError" where
  "NewInternalError message details now =
     \<lparr>Type = ErrorTypeInternal, Message = message, StatusCode = 500,
      Details = Some details, Timestamp = now\<rparr>"

definition GetRetryAfter :: "ProxyError \<Rightarrow> int" where
  "GetRetryAfter e =
     (case Details e of
        None \<Rightarrow> 0
      | Some details \<Rightarrow>
          (case details ''retry_after'' of
             Some (JInt retryAfter) \<Rightarrow> retryAfter
           | Some (JNum retryAfter) \<Rightarrow> float_to_int retryAfter
           | _ \<Rightarrow> 0))"

definition ErrorType_string :: "ErrorType \<Rightarrow> string" where
  "ErrorType_string t =
     (case t of ErrorTypeClient \<Rightarrow> ''client_error'' | ErrorTypeUpstream \<Rightarrow> ''upstream_error''
      | ErrorTypeInstance \<Rightarrow> ''instance_error'' | ErrorTypeInternal \<Rightarrow> ''internal_error'')"

section \<open>Instance configuration and state\<close>

text \<open>
  A \<open>time.Time\<close> is modelled by its nanoseconds since the epoch; \<open>Unix\<close> gives the
  seconds. One operation of the proxy reads the clock once: the \<open>now\<close> it is given.
\<close>

type_synonym Time = int

definition Unix :: "Time \<Rightarrow> int" where
  "Unix t = t div 1000000000"

text \<open>
  \<open>InstanceStatus\<close> is a string type in the source. The records carry the fields that
  selection, accounting and the health update read or write; the remaining fields of the
  source (credentials, time-outs, the per-class error windows and rates) are written by
  none of them.
\<close>

type_synonym InstanceStatus = string

definition StatusHealthy :: InstanceStatus where "StatusHealthy = ''healthy''"
definition StatusRateLimited :: InstanceStatus where "StatusRateLimited = ''rate_limited''"
definition StatusError :: InstanceStatus where "StatusError = ''error''"

record InstanceConfig =
  Name :: string
  ProviderType :: string
  Priority :: int
  Weight :: int
  MaxTPM :: int
  MaxInputTokens :: int
  SupportedModels :: "string list"
  ModelDeployments :: "string \<rightharpoonup> string"
  Enabled :: bool
  RateLimitEnabled :: bool

record InstanceState =
  StateName :: string
  Status :: InstanceStatus
  HealthStatus :: string
  ConnectionStatus :: string
  ErrorCount :: int
  LastError :: "string option"
  LastErrorTime :: "int option"
  TotalErrors500 :: int
  TotalErrors503 :: int
  TotalOtherErrors :: int
  TotalRequests :: int
  SuccessfulRequests :: int
  TotalTokensServed :: int
  AvgLatencyMs :: "real option"
  LastUsed :: Time

definition IsHealthy :: "InstanceState \<Rightarrow> bool" where
  "IsHealthy s \<longleftrightarrow> Status s = StatusHealthy"

definition NewInstanceState :: "string \<Rightarrow> Time \<Rightarrow> InstanceState" where
  "NewInstanceState name now =
     \<lparr>StateName = name, Status = StatusHealthy, HealthStatus = ''unknown'',
      ConnectionStatus = ''unknown'', ErrorCount = 0, LastError = None, LastErrorTime = None,
      TotalErrors500 = 0, TotalErrors503 = 0, TotalOtherErrors = 0, TotalRequests = 0,
      SuccessfulRequests = 0, TotalTokensServed = 0, AvgLatencyMs = None, LastUsed = now\<rparr>"

subsection \<open>The state store\<close>

text \<open>
  The Redis state store: unreachable, or a blob for some instance names. A blob decodes
  to a state, or fails to decode (\<open>None\<close>). \<open>Get\<close> of a missing key returns a new
  state without storing it.
\<close>

record StateStore =
  store_up :: bool
  blobs :: "string \<rightharpoonup> InstanceState option"

definition Get :: "StateStore \<Rightarrow> string \<Rightarrow> Time \<Rightarrow> error + InstanceState" where
  "Get st instanceName now =
     (if \<not> store_up st then Inl ''failed to get instance state from Redis''
      else case blobs st instanceName of
             None \<Rightarrow> Inr (NewInstanceState instanceName now)
           | Some None \<Rightarrow> Inl ''failed to unmarshal instance state''
           | Some (Some state) \<Rightarrow> Inr state)"

definition Set :: "StateStore \<Rightarrow> string \<Rightarrow> InstanceState \<Rightarrow> error option \<times> StateStore" where
  "Set st instanceName state =
     (if \<not> store_up st then (Some ''failed to set instance state in Redis'', st)
      else (None, st\<lparr>blobs := (blobs st)(instanceName \<mapsto> Some state)\<rparr>))"

definition Delete :: "StateStore \<Rightarrow> string \<Rightarrow> error option \<times> StateStore" where
  "Delete st instanceName =
     (if \<not> store_up st then (Some ''failed to delete instance state from Redis'', st)
      else (None, st\<lparr>blobs := (blobs st)(instanceName := None)\<rparr>))"

section \<open>The instance manager\<close>

text \<open>
  The manager holds the configurations, the strategy and one rate limiter for each
  instance that is enabled with rate limiting on. What it mutates lives outside the
  process: the state store and the Redis windows, together the \<open>World\<close>.
\<close>

record Manager =
  configs :: "InstanceConfig list"
  routingStrategy :: string
  rateLimiters :: "string \<rightharpoonup> RateLimiter"

record World =
  stateStore :: StateStore
  redis :: Redis

definition NewManager :: "InstanceConfig list \<Rightarrow> string \<Rightarrow> Redis \<Rightarrow> error + Manager" where
  "NewManager instances strategy r =
     (if list_ex (\<lambda>i. Enabled i \<and> RateLimitEnabled i) instances \<and> \<not> reachable r
      then Inl ''failed to create rate limiter''
      else Inr \<lparr>configs = instances, routingStrategy = strategy,
                rateLimiters =
                  fold (\<lambda>i m. if Enabled i \<and> RateLimitEnabled i
                               then m(Name i \<mapsto> NewRateLimiter (Name i) (MaxTPM i) (MaxInputTokens i))
                               else m)
                    instances Map.empty\<rparr>)"

definition GetInstanceState :: "World \<Rightarrow> string \<Rightarrow> Time \<Rightarrow> error + InstanceState" where
  "GetInstanceState w instanceName now = Get (stateStore w) instanceName now"

definition UpdateInstanceState :: "World \<Rightarrow> string \<Rightarrow> InstanceState \<Rightarrow> error option \<times> World" where
  "UpdateInstanceState w instanceName state =
     (case Set (stateStore w) instanceName state of (err, st) \<Rightarrow> (err, w\<lparr>stateStore := st\<rparr>))"

definition CheckRateLimit ::
  "Manager \<Rightarrow> World \<Rightarrow> string \<Rightarrow> int \<Rightarrow> Time \<Rightarrow> (bool \<times> error option) \<times> World" where
  "CheckRateLimit m w instanceName tokens now =
     (case rateLimiters m instanceName of
        None \<Rightarrow> ((True, None), w)
      | Some rateLimiter \<Rightarrow>
          (case CheckCapacity rateLimiter (Unix now) (redis w) tokens of
             ((hasCapacity, retryAfter, err), r) \<Rightarrow> ((hasCapacity, err), w\<lparr>redis := r\<rparr>)))"

definition GetInstanceConfig :: "Manager \<Rightarrow> string \<Rightarrow> error + InstanceConfig" where
  "GetInstanceConfig m instanceName =
     (case find (\<lambda>cfg. Name cfg = instanceName) (configs m) of
        Some cfg \<Rightarrow> Inr cfg
      | None \<Rightarrow> Inl (''instance not found: '' @ instanceName))"

text \<open>
  The health update of the sweeper. The result of a health check: the instance, whether
  it is healthy, the probe latency in milliseconds and the error of the probe.
\<close>

record healthCheckResult =
  hc_instanceName :: string
  hc_isHealthy :: bool
  hc_latency_ms :: int
  hc_error :: "error option"

definition health_update :: "healthCheckResult \<Rightarrow> Time \<Rightarrow> InstanceState \<Rightarrow> InstanceState" where
  "health_update result now state =
     (if hc_isHealthy result then
        state\<lparr>Status := StatusHealthy, HealthStatus := ''healthy'',
              ConnectionStatus := ''connected'',
              AvgLatencyMs := Some (real_of_int (hc_latency_ms result))\<rparr>
      else
        (case hc_error result of
           None \<Rightarrow>
             state\<lparr>Status := StatusError, HealthStatus := ''unhealthy'',
                   ConnectionStatus := ''disconnected''\<rparr>
         | Some errorMsg \<Rightarrow>
             state\<lparr>Status := StatusError, HealthStatus := ''unhealthy'',
                   ConnectionStatus := ''disconnected'',
                   LastError := Some errorMsg, LastErrorTime := Some (Unix now)\<rparr>))"

definition updateInstanceHealth :: "World \<Rightarrow> healthCheckResult \<Rightarrow> Time \<Rightarrow> World" where
  "updateInstanceHealth w result now =
     (case GetInstanceState w (hc_instanceName result) now of
        Inl err \<Rightarrow> w
      | Inr state \<Rightarrow>
          snd (UpdateInstanceState w (hc_instanceName result) (health_update result now state)))"

text \<open>The health check of the source reports every instance healthy after 50 ms.\<close>

definition performSingleHealthCheck :: "InstanceConfig \<Rightarrow> healthCheckResult" where
  "performSingleHealthCheck cfg =
     \<lparr>hc_instanceName = Name cfg, hc_isHealthy = True, hc_latency_ms = 50, hc_error = None\<rparr>"

section \<open>The selector\<close>

text \<open>
  A function of the source that can panic returns \<open>Panic\<close>; an error return is
  \<open>Err\<close>.
\<close>

datatype 'a res = Ok 'a | Err error | Panic string

record instanceWithState =
  Config :: InstanceConfig
  State :: InstanceState

subsection \<open>sort.Slice\<close>

text \<open>
  \<open>sort.Slice\<close> belongs to Go's library. The selector takes it as a parameter
  \<open>srt\<close>; what the library promises of it for a comparison \<open>lt\<close> is
  \<open>sorts_by lt srt\<close>: the result is a rearrangement of the slice in which no element
  is less than an earlier one. The order of equal elements is not promised. For a slice
  of fewer than 12 elements the library runs the insertion sort
  \<open>insertionSortLessFunc\<close>: each element moves left while it is less than the one
  before it. The sorted part is kept in reverse.
\<close>

type_synonym 'a sorter = "('a \<Rightarrow> 'a \<Rightarrow> bool) \<Rightarrow> 'a list \<Rightarrow> 'a list"

definition sorts_by :: "('a \<Rightarrow> 'a \<Rightarrow> bool) \<Rightarrow> 'a sorter \<Rightarrow> bool" where
  "sorts_by lt srt \<longleftrightarrow>
     (\<forall>xs. mset (srt lt xs) = mset xs \<and> sorted_wrt (\<lambda>a b. \<not> lt b a) (srt lt xs))"

fun move_left :: "('a \<Rightarrow> 'a \<Rightarrow> bool) \<Rightarrow> 'a \<Rightarrow> 'a list \<Rightarrow> 'a list" where
  "move_left lt x [] = [x]"
| "move_left lt x (y # before) =
     (if lt x y then y # move_left lt x before else x # y # before)"

definition insertionSortLessFunc :: "'a sorter" where
  "insertionSortLessFunc lt xs = rev (fold (move_left lt) xs [])"

subsection \<open>Filters\<close>

definition modelSupported :: "string \<Rightarrow> InstanceConfig \<Rightarrow> bool" where
  "modelSupported model cfg \<longleftrightarrow>
     list_ex (\<lambda>supportedModel. ToLower supportedModel = ToLower model) (SupportedModels cfg)"

text \<open>The first loop of \<open>SelectInstanceForRequest\<close> keeps a configuration when none of its \<open>continue\<close>s fires.\<close>

definition prefilter :: "string \<Rightarrow> int \<Rightarrow> string \<Rightarrow> InstanceConfig \<Rightarrow> bool" where
  "prefilter model tokens providerType cfg \<longleftrightarrow>
     Enabled cfg
     \<and> \<not> (providerType \<noteq> [] \<and> ProviderType cfg \<noteq> providerType)
     \<and> modelSupported model cfg
     \<and> \<not> tokens > MaxTPM cfg"

text \<open>The second loop: state, health, rate limit. Each rate-limit check may evict window entries.\<close>

fun eligible_loop ::
  "Manager \<Rightarrow> int \<Rightarrow> Time \<Rightarrow> InstanceConfig list \<Rightarrow> World \<Rightarrow> instanceWithState list \<times> World" where
  "eligible_loop m tokens now [] w = ([], w)"
| "eligible_loop m tokens now (cfg # cfgs) w =
     (case GetInstanceState w (Name cfg) now of
        Inl err \<Rightarrow> eligible_loop m tokens now cfgs w
      | Inr state \<Rightarrow>
          if \<not> IsHealthy state then eligible_loop m tokens now cfgs w
          else
            (case CheckRateLimit m w (Name cfg) tokens now of
               ((hasCapacity, err), w') \<Rightarrow>
                 if err \<noteq> None \<or> \<not> hasCapacity then eligible_loop m tokens now cfgs w'
                 else
                   (case eligible_loop m tokens now cfgs w' of
                      (rest, w'') \<Rightarrow> (\<lparr>Config = cfg, State = state\<rparr> # rest, w''))))"

subsection \<open>Strategies\<close>

definition priority_less :: "instanceWithState \<Rightarrow> instanceWithState \<Rightarrow> bool" where
  "priority_less a b \<longleftrightarrow> Priority (Config a) < Priority (Config b)"

definition lastUsed_before :: "instanceWithState \<Rightarrow> instanceWithState \<Rightarrow> bool" where
  "lastUsed_before a b \<longleftrightarrow> LastUsed (State a) < LastUsed (State b)"

text \<open>\<open>instances[0]\<close> panics on an empty slice.\<close>

definition first_name :: "instanceWithState list \<Rightarrow> string res" where
  "first_name instances =
     (case instances of [] \<Rightarrow> Panic ''index out of range'' | i # _ \<Rightarrow> Ok (Name (Config i)))"

definition selectByFailover :: "instanceWithState sorter \<Rightarrow> instanceWithState list \<Rightarrow> string res" where
  "selectByFailover srt instances = first_name (srt priority_less instances)"

definition selectByRoundRobin :: "instanceWithState sorter \<Rightarrow> instanceWithState list \<Rightarrow> string res" where
  "selectByRoundRobin srt instances = first_name (srt lastUsed_before instances)"

definition totalWeight :: "instanceWithState list \<Rightarrow> int" where
  "totalWeight instances = fold (\<lambda>i t. wrap64 (t + Weight (Config i))) instances 0"

fun weight_walk :: "instanceWithState list \<Rightarrow> int \<Rightarrow> int \<Rightarrow> string option" where
  "weight_walk [] target current = None"
| "weight_walk (i # instances) target current =
     (if wrap64 (current + Weight (Config i)) > target then Some (Name (Config i))
      else weight_walk instances target (wrap64 (current + Weight (Config i))))"

text \<open>
  \<open>target\<close> is the number \<open>rand.Intn(totalWeight)\<close> returns; \<open>rand.Intn\<close> panics
  when its argument is not positive.
\<close>

definition selectByWeight :: "instanceWithState list \<Rightarrow> int \<Rightarrow> string res" where
  "selectByWeight instances target =
     (if totalWeight instances \<le> 0 then Panic ''invalid argument to Intn''
      else case weight_walk instances target 0 of
             Some name \<Rightarrow> Ok name
           | None \<Rightarrow> first_name instances)"

subsection \<open>SelectInstanceForRequest\<close>

definition SelectInstanceForRequest ::
  "instanceWithState sorter \<Rightarrow> Manager \<Rightarrow> World \<Rightarrow> string \<Rightarrow> int \<Rightarrow> string \<Rightarrow> int \<Rightarrow> Time
     \<Rightarrow> string res \<times> World" where
  "SelectInstanceForRequest srt m w model tokens providerType target now =
     (let filteredConfigs = filter (prefilter model tokens providerType) (configs m) in
      if filteredConfigs = [] then (Err (''no suitable instances found for model '' @ model), w)
      else
        case eligible_loop m tokens now filteredConfigs w of
          (eligibleInstances, w') \<Rightarrow>
            if eligibleInstances = []
            then (Err (''no healthy instances with capacity found for model '' @ model), w')
            else if routingStrategy m = ''failover'' then (selectByFailover srt eligibleInstances, w')
            else if routingStrategy m = ''weighted'' then (selectByWeight eligibleInstances target, w')
            else if routingStrategy m = ''round_robin'' then (selectByRoundRobin srt eligibleInstances, w')
            else (selectByFailover srt eligibleInstances, w'))"

definition SelectInstance ::
  "instanceWithState sorter \<Rightarrow> Manager \<Rightarrow> World \<Rightarrow> string \<Rightarrow> int \<Rightarrow> string \<Rightarrow> int \<Rightarrow> Time
     \<Rightarrow> string res \<times> World" where
  "SelectInstance srt m w model tokens providerType target now =
     SelectInstanceForRequest srt m w model tokens providerType target now"

subsection \<open>Prefix sums of weights\<close>

text \<open>
  The prefix sum of the weights up to and including position \<open>k\<close>, and the first
  position whose prefix sum exceeds a target.
\<close>

definition weights :: "instanceWithState list \<Rightarrow> int list" where
  "weights instances = map (\<lambda>i. Weight (Config i)) instances"

definition prefix_weight :: "instanceWithState list \<Rightarrow> nat \<Rightarrow> int" where
  "prefix_weight instances k = sum_list (weights (take (Suc k) instances))"

definition first_exceeding :: "instanceWithState list \<Rightarrow> int \<Rightarrow> nat option" where
  "first_exceeding instances target =
     find (\<lambda>k. target < prefix_weight instances k) [0..<length instances]"

subsection \<open>Example instances\<close>

text \<open>
  An enabled Azure instance for \<open>gpt-4\<close> without a rate limiter, and the same with
  its state at creation.
\<close>

definition azure_config :: "string \<Rightarrow> int \<Rightarrow> int \<Rightarrow> InstanceConfig" where
  "azure_config name priority weight =
     \<lparr>Name = name, ProviderType = ''azure'', Priority = priority, Weight = weight,
      MaxTPM = 60000, MaxInputTokens = 0, SupportedModels = [''gpt-4''],
      ModelDeployments = Map.empty, Enabled = True, RateLimitEnabled = False\<rparr>"

definition fresh_instance :: "string \<Rightarrow> int \<Rightarrow> int \<Rightarrow> instanceWithState" where
  "fresh_instance name priority weight =
     \<lparr>Config = azure_config name priority weight, State = NewInstanceState name 0\<rparr>"

section \<open>The request transformer\<close>

text \<open>
  The token estimator counts with an external tokenizer; its three entry points are
  parameters of the transformer. Each takes the model and the provider last.
\<close>

record TokenEstimator =
  EstimateChatTokens :: "json list \<Rightarrow> json list \<Rightarrow> string \<Rightarrow> string \<Rightarrow> error + int"
  EstimateCompletionTokens :: "string \<Rightarrow> string \<Rightarrow> string \<Rightarrow> error + int"
  EstimateEmbeddingTokens :: "json \<Rightarrow> string \<Rightarrow> string \<Rightarrow> error + int"

text \<open>An array element that is not an object becomes the nil map.\<close>

definition as_object :: "json \<Rightarrow> json" where
  "as_object j = (case j of JObj kvs \<Rightarrow> JObj kvs | _ \<Rightarrow> JObj [])"

definition tool_functions :: "json list \<Rightarrow> json list" where
  "tool_functions tools =
     concat (map (\<lambda>tool. case tool of
                            JObj toolMap \<Rightarrow>
                              (case map_of toolMap ''function'' of
                                 Some (JObj fn) \<Rightarrow> [JObj fn]
                               | _ \<Rightarrow> [])
                          | _ \<Rightarrow> []) tools)"

definition estimateTokens :: "TokenEstimator \<Rightarrow> string \<Rightarrow> jmap \<Rightarrow> string \<Rightarrow> error + int" where
  "estimateTokens te endpoint payload modelName =
     (if endpoint = ''/v1/chat/completions'' then
        (case payload ''messages'' of
           Some (JArr messages) \<Rightarrow>
             let messagesMapped = map as_object messages;
                 functions = (case payload ''functions'' of
                                Some (JArr funcs) \<Rightarrow> map as_object funcs | _ \<Rightarrow> []);
                 functions' = (case payload ''tools'' of
                                 Some (JArr tools) \<Rightarrow> functions @ tool_functions tools
                               | _ \<Rightarrow> functions)
             in EstimateChatTokens te messagesMapped functions' modelName ''azure''
         | _ \<Rightarrow> Inr 100)
      else if endpoint = ''/v1/completions'' then
        (case payload ''prompt'' of
           Some (JStr prompt) \<Rightarrow> EstimateCompletionTokens te prompt modelName ''azure''
         | _ \<Rightarrow> Inr 100)
      else if endpoint = ''/v1/embeddings'' then
        (case payload ''input'' of
           Some input \<Rightarrow> EstimateEmbeddingTokens te input modelName ''azure''
         | None \<Rightarrow> Inr 50)
      else Inr 100)"

record TransformResult =
  OriginalModel :: string
  Payload :: jmap
  RequiredTokens :: int
  Endpoint :: string
  Method :: string

definition TransformOpenAIToAzure ::
  "TokenEstimator \<Rightarrow> string \<Rightarrow> jmap \<Rightarrow> string \<Rightarrow> error + TransformResult" where
  "TransformOpenAIToAzure te endpoint payload deploymentName =
     (case payload ''model'' of
        Some (JStr modelName) \<Rightarrow>
          if modelName = [] then Inl ''model name is required''
          else
            let azurePayload = payload(''model'' := None) in
            (case estimateTokens te endpoint azurePayload modelName of
               Inl err \<Rightarrow> Inl (''failed to estimate tokens: '' @ err)
             | Inr requiredTokens \<Rightarrow>
                 let azurePayload' =
                       (case azurePayload ''max_tokens'' of
                          Some (JNum maxTokensFloat) \<Rightarrow>
                            let maxTokensInt = float_to_int maxTokensFloat in
                            if maxTokensInt > 5000
                               \<and> maxTokensInt > wrap64 (requiredTokens + 5000)
                               \<and> \<not> Contains modelName ''2024-05-13''
                            then azurePayload(''max_tokens'' \<mapsto> JInt (wrap64 (requiredTokens + 5000)))
                            else azurePayload
                        | _ \<Rightarrow> azurePayload)
                 in Inr \<lparr>OriginalModel = ToLower modelName, Payload = azurePayload',
                         RequiredTokens = requiredTokens, Endpoint = endpoint,
                         Method = ''POST''\<rparr>)
      | _ \<Rightarrow> Inl ''model name is required'')"

text \<open>
  The response rewrite. Its loop over \<open>choices\<close> stores every choice back unchanged,
  and its error is always nil.
\<close>

definition TransformAzureToOpenAI :: "jmap \<Rightarrow> string \<Rightarrow> error + jmap" where
  "TransformAzureToOpenAI azureResponse originalModel =
     Inr (azureResponse(''model'' \<mapsto> JStr originalModel))"

definition ReplaceAll_char :: "string \<Rightarrow> char \<Rightarrow> string" where
  "ReplaceAll_char s c = filter (\<lambda>x. x \<noteq> c) s"

definition GetDeploymentName :: "string \<Rightarrow> (string \<rightharpoonup> string) \<Rightarrow> string" where
  "GetDeploymentName modelName deployments =
     (let modelLower = ToLower modelName in
      case deployments modelLower of
        Some deployment \<Rightarrow> deployment
      | None \<Rightarrow>
          (case find (\<lambda>variation. deployments variation \<noteq> None)
                  [modelLower, ReplaceAll_char modelLower CHR ''.'',
                   ReplaceAll_char modelLower CHR ''-'', ReplaceAll_char modelLower CHR ''_''] of
             Some variation \<Rightarrow> the (deployments variation)
           | None \<Rightarrow> modelLower))"

text \<open>Validation of the messages: the first message that is not an object with a role and a content fails.\<close>

fun validate_messages :: "nat \<Rightarrow> json list \<Rightarrow> error option" where
  "validate_messages i [] = None"
| "validate_messages i (msg # msgs) =
     (case msg of
        JObj msgMap \<Rightarrow>
          if map_of msgMap ''role'' = None
          then Some (''message '' @ Sprintf_d (int i) @ '' missing required 'role' field'')
          else if map_of msgMap ''content'' = None
          then Some (''message '' @ Sprintf_d (int i) @ '' missing required 'content' field'')
          else validate_messages (Suc i) msgs
      | _ \<Rightarrow> Some (''message '' @ Sprintf_d (int i) @ '' is not a valid object''))"

definition ValidateRequest :: "string \<Rightarrow> jmap \<Rightarrow> error option" where
  "ValidateRequest endpoint payload =
     (if endpoint = ''/v1/chat/completions'' then
        (case payload ''messages'' of
           None \<Rightarrow> Some ''messages field is required for chat completions''
         | Some (JArr messages) \<Rightarrow>
             if messages = [] then Some ''messages array cannot be empty''
             else validate_messages 0 messages
         | Some _ \<Rightarrow> Some ''messages must be an array'')
      else if endpoint = ''/v1/completions'' then
        (if payload ''prompt'' = None then Some ''prompt field is required for completions'' else None)
      else if endpoint = ''/v1/embeddings'' then
        (if payload ''input'' = None then Some ''input field is required for embeddings'' else None)
      else None)"

definition CleanRequestMetadata :: "jmap \<Rightarrow> jmap" where
  "CleanRequestMetadata payload = (\<lambda>k. if HasPrefix k ''_internal_'' then None else payload k)"

section \<open>The rate limiter's update and the upstream client\<close>

text \<open>
  \<open>UpdateUsage\<close> adds the member \<open>"<tokens>:<nanos>"\<close> with the current second as
  score (a member already present gets the new score), evicts, and refreshes the expiry
  of the key, which the model does not follow.
\<close>

definition ZAdd :: "Z \<Rightarrow> Z list \<Rightarrow> Z list" where
  "ZAdd e zs = e # filter (\<lambda>x. fst x \<noteq> fst e) zs"

definition UpdateUsage :: "RateLimiter \<Rightarrow> Time \<Rightarrow> Redis \<Rightarrow> int \<Rightarrow> error option \<times> Redis" where
  "UpdateUsage rl currentTime r tokens =
     (let uniqueTokenKey = Sprintf_d tokens @ '':'' @ Sprintf_d currentTime;
          cutoff = wrap64 (Unix currentTime - windowSeconds rl)
      in if \<not> reachable r then (Some ''failed to update usage'', r)
         else (None, r\<lparr>zsets := (zsets r)(redisKey rl :=
                 ZRemRangeByScore cutoff (ZAdd (uniqueTokenKey, Unix currentTime) (zsets r (redisKey rl))))\<rparr>))"

definition Manager_UpdateUsage :: "Manager \<Rightarrow> World \<Rightarrow> string \<Rightarrow> int \<Rightarrow> Time \<Rightarrow> error option \<times> World" where
  "Manager_UpdateUsage m w instanceName tokens now =
     (case rateLimiters m instanceName of
        None \<Rightarrow> (None, w)
      | Some rateLimiter \<Rightarrow>
          (case UpdateUsage rateLimiter now (redis w) tokens of
             (err, r) \<Rightarrow> (err, w\<lparr>redis := r\<rparr>)))"

text \<open>
  A response of the backend: status, headers, the body as \<open>io.ReadAll\<close> returns it
  (or its error), and the same body as the lines \<open>bufio.Scanner\<close> yields.
\<close>

record HTTPResponse =
  RespStatusCode :: int
  RespHeader :: "(string \<times> string list) list"
  RespBody :: "error + string"
  RespLines :: "string list"

definition Header_Get :: "(string \<times> string list) list \<Rightarrow> string \<Rightarrow> string" where
  "Header_Get hdr key = (case map_of hdr key of Some (v # _) \<Rightarrow> v | _ \<Rightarrow> [])"

text \<open>
  What the proxy does not implement itself is its environment: \<open>sort.Slice\<close>, the value
  \<open>rand.Intn\<close> returns, the token estimator, \<open>json.Unmarshal\<close> into a map,
  whether \<open>json.Marshal\<close> succeeds on a map, and the HTTP exchange with the backend
  of an instance (building the URL, encoding the payload, \<open>client.Do\<close>).
\<close>

record Env =
  sort_Slice :: "instanceWithState sorter"
  rand_Intn :: int
  tokenEstimator :: TokenEstimator
  json_Unmarshal :: "string \<Rightarrow> jmap option"
  json_Marshal_ok :: "jmap \<Rightarrow> bool"
  client_Do :: "InstanceConfig \<Rightarrow> string \<Rightarrow> jmap \<Rightarrow> string \<Rightarrow> error + HTTPResponse"

definition ProxyRequest ::
  "Env \<Rightarrow> InstanceConfig \<Rightarrow> string \<Rightarrow> jmap \<Rightarrow> string \<Rightarrow> Time \<Rightarrow> ProxyError + HTTPResponse" where
  "ProxyRequest env cfg endpoint payload deploymentName now =
     (case client_Do env cfg endpoint payload deploymentName of
        Inl err \<Rightarrow>
          Inl (NewUpstreamError ''request to Azure OpenAI failed'' 500
                 [''error'' \<mapsto> JStr err, ''deployment'' \<mapsto> JStr deploymentName] (Unix now))
      | Inr resp \<Rightarrow> Inr resp)"

definition StreamRequest ::
  "Env \<Rightarrow> InstanceConfig \<Rightarrow> string \<Rightarrow> jmap \<Rightarrow> string \<Rightarrow> Time \<Rightarrow> ProxyError + HTTPResponse" where
  "StreamRequest env cfg endpoint payload deploymentName now =
     ProxyRequest env cfg endpoint (payload(''stream'' \<mapsto> JBool True)) deploymentName now"

definition ParseErrorResponse :: "Env \<Rightarrow> HTTPResponse \<Rightarrow> Time \<Rightarrow> ProxyError" where
  "ParseErrorResponse env resp now =
     (case RespBody resp of
        Inl err \<Rightarrow>
          NewUpstreamError ''failed to read error response'' (RespStatusCode resp)
            [''error'' \<mapsto> JStr err] (Unix now)
      | Inr body \<Rightarrow>
          (case json_Unmarshal env body of
             None \<Rightarrow>
               NewUpstreamError ''invalid error response format'' (RespStatusCode resp)
                 [''body'' \<mapsto> JStr body] (Unix now)
           | Some errorData \<Rightarrow>
               let (message, errorType) =
                     (case errorData ''error'' of
                        Some (JObj errorObj) \<Rightarrow>
                          ((case map_of errorObj ''message'' of Some (JStr msg) \<Rightarrow> msg | _ \<Rightarrow> []),
                           (case map_of errorObj ''type'' of Some (JStr typ) \<Rightarrow> typ | _ \<Rightarrow> []))
                      | _ \<Rightarrow> (body, []))
               in NewUpstreamError message (RespStatusCode resp)
                    [''response_body'' \<mapsto> JStr body, ''error_type'' \<mapsto> JStr errorType,
                     ''status_code'' \<mapsto> JInt (RespStatusCode resp)] (Unix now)))"

section \<open>The dispatcher\<close>

text \<open>
  What the handler sends: the status, the headers in the order of the calls of
  \<open>c.Header\<close>, and the body. \<open>JSONBody\<close> is a map sent with \<open>c.JSON\<close>. A stream
  is the list of its writes: \<open>Raw s\<close> writes the string \<open>s\<close>, \<open>Data m\<close> writes
  \<open>data: \<close>, the encoding of the map \<open>m\<close> and two newlines.
\<close>

datatype chunk_write = Raw string | Data jmap

datatype body = JSONBody jmap | DataBody string | StreamBody "chunk_write list"

record Response =
  http_status :: int
  http_headers :: "(string \<times> string) list"
  http_body :: body

definition sendErrorResponse :: "ProxyError \<Rightarrow> Response" where
  "sendErrorResponse proxyErr =
     \<lparr>http_status = StatusCode proxyErr,
      http_headers = (if GetRetryAfter proxyErr > 0
                 then [(''Retry-After'', Sprintf_d (GetRetryAfter proxyErr))] else []),
      http_body = JSONBody [''error'' \<mapsto>
               JObj [(''message'', JStr (Message proxyErr)),
                     (''type'', JStr (ErrorType_string (Type proxyErr))),
                     (''code'', JInt (StatusCode proxyErr))]]\<rparr>"

definition newline :: string where
  "newline = [CHR 0x0A]"

definition forwardResponse :: "Env \<Rightarrow> HTTPResponse \<Rightarrow> string \<Rightarrow> Time \<Rightarrow> Response" where
  "forwardResponse env resp originalModel now =
     (case RespBody resp of
        Inl err \<Rightarrow>
          sendErrorResponse
            (NewInternalError ''failed to read response'' [''error'' \<mapsto> JStr err] (Unix now))
      | Inr body \<Rightarrow>
          (case json_Unmarshal env body of
             None \<Rightarrow>
               \<lparr>http_status = RespStatusCode resp,
                http_headers = [(''Content-Type'', Header_Get (RespHeader resp) ''Content-Type'')],
                http_body = DataBody body\<rparr>
           | Some responseData \<Rightarrow>
               let transformedResponse =
                     (case TransformAzureToOpenAI responseData originalModel of
                        Inl err \<Rightarrow> responseData
                      | Inr transformed \<Rightarrow> transformed)
               in \<lparr>http_status = RespStatusCode resp,
                   http_headers = concat (map (\<lambda>(key, values). map (Pair key) values) (RespHeader resp)),
                   http_body = JSONBody transformedResponse\<rparr>))"

text \<open>
  The loop of \<open>streamResponse\<close> over the lines; \<open>[DONE]\<close> ends it.
  \<open>TrimPrefix\<close> is \<open>strings.TrimPrefix\<close>.
\<close>

definition TrimPrefix :: "string \<Rightarrow> string \<Rightarrow> string" where
  "TrimPrefix s p = (if HasPrefix s p then drop (length p) s else s)"

definition data_prefix :: string where
  "data_prefix = ''data: ''"

definition done_marker :: string where
  "done_marker = ''[DONE]''"

fun stream_loop :: "Env \<Rightarrow> string \<Rightarrow> string list \<Rightarrow> chunk_write list" where
  "stream_loop env originalModel [] = []"
| "stream_loop env originalModel (line # lines) =
     (if HasPrefix line data_prefix then
        let dataStr = TrimPrefix line data_prefix in
        if dataStr = done_marker then [Raw (data_prefix @ done_marker @ newline @ newline)]
        else
          (case json_Unmarshal env dataStr of
             Some chunkData \<Rightarrow>
               let chunkData' =
                     (case TransformAzureToOpenAI chunkData originalModel of
                        Inr transformedChunk \<Rightarrow> transformedChunk
                      | Inl err \<Rightarrow> chunkData)
               in (if json_Marshal_ok env chunkData' then Data chunkData'
                   else Raw (line @ newline @ newline))
                  # stream_loop env originalModel lines
           | None \<Rightarrow> Raw (line @ newline @ newline) # stream_loop env originalModel lines)
      else Raw (line @ newline) # stream_loop env originalModel lines)"

definition streamResponse :: "Env \<Rightarrow> HTTPResponse \<Rightarrow> string \<Rightarrow> Response" where
  "streamResponse env resp originalModel =
     \<lparr>http_status = RespStatusCode resp,
      http_headers =
        [(''Content-Type'', ''text/event-stream''), (''Cache-Control'', ''no-cache''),
         (''Connection'', ''keep-alive''), (''Access-Control-Allow-Origin'', ''*'')]
        @ concat (map (\<lambda>(key, values).
                         if \<not> HasPrefix (ToLower key) ''content-''
                            \<and> ToLower key \<noteq> ''cache-control''
                            \<and> ToLower key \<noteq> ''connection''
                         then map (Pair key) values else [])
                    (RespHeader resp)),
      http_body = StreamBody (stream_loop env originalModel (RespLines resp))\<rparr>"

subsection \<open>Accounting\<close>

text \<open>
  \<open>Duration.Milliseconds\<close> truncates towards zero. The latency average is a
  \<open>float64\<close>, modelled by the real it denotes. In the error rate, a division by zero
  requests gives 0 here and an infinity or NaN in Go; with zero requests the demotion
  fails on its second condition in both.
\<close>

definition Milliseconds :: "int \<Rightarrow> int" where
  "Milliseconds d = (if 0 \<le> d then d div 1000000 else - ((- d) div 1000000))"

definition usage_update :: "int \<Rightarrow> Time \<Rightarrow> Time \<Rightarrow> InstanceState \<Rightarrow> InstanceState" where
  "usage_update tokens startTime now state =
     (let latency = real_of_int (Milliseconds (wrap64 (now - startTime))) in
      state\<lparr>TotalRequests := wrap64 (TotalRequests state + 1),
            SuccessfulRequests := wrap64 (SuccessfulRequests state + 1),
            TotalTokensServed := wrap64 (TotalTokensServed state + tokens),
            LastUsed := now,
            AvgLatencyMs := Some (case AvgLatencyMs state of
                                    None \<Rightarrow> latency
                                  | Some avg \<Rightarrow> 0.9 * avg + 0.1 * latency)\<rparr>)"

definition recordUsage :: "Manager \<Rightarrow> World \<Rightarrow> string \<Rightarrow> int \<Rightarrow> Time \<Rightarrow> Time \<Rightarrow> World" where
  "recordUsage m w instanceName tokens startTime now =
     (case Manager_UpdateUsage m w instanceName tokens now of
        (err, w') \<Rightarrow>
          (case GetInstanceState w' instanceName now of
             Inl err' \<Rightarrow> w'
           | Inr state \<Rightarrow>
               snd (UpdateInstanceState w' instanceName (usage_update tokens startTime now state))))"

definition error_update :: "int \<Rightarrow> InstanceState \<Rightarrow> InstanceState" where
  "error_update statusCode state =
     (let s1 = state\<lparr>ErrorCount := wrap64 (ErrorCount state + 1),
                     TotalRequests := wrap64 (TotalRequests state + 1)\<rparr>;
          s2 = (if statusCode = 500 then s1\<lparr>TotalErrors500 := wrap64 (TotalErrors500 s1 + 1)\<rparr>
                else if statusCode = 503 then s1\<lparr>TotalErrors503 := wrap64 (TotalErrors503 s1 + 1)\<rparr>
                else s1\<lparr>TotalOtherErrors := wrap64 (TotalOtherErrors s1 + 1)\<rparr>);
          errorRate = real_of_int (ErrorCount s2) / real_of_int (TotalRequests s2) * 100
      in if errorRate > 50 \<and> TotalRequests s2 > 10
         then s2\<lparr>Status := StatusError, HealthStatus := ''unhealthy''\<rparr>
         else s2)"

definition recordError :: "World \<Rightarrow> string \<Rightarrow> int \<Rightarrow> Time \<Rightarrow> World" where
  "recordError w instanceName statusCode now =
     (case GetInstanceState w instanceName now of
        Inl err \<Rightarrow> w
      | Inr state \<Rightarrow> snd (UpdateInstanceState w instanceName (error_update statusCode state)))"

subsection \<open>handleProxyRequest\<close>

text \<open>
  The handler keeps the manager and one backend client for each Azure instance. Its body
  is one function in the source; here it is cut at its early returns into the steps it
  runs in order, each continuing with the next: selection, transformation, the
  rate-limit check, the call of the backend, and the relay of the answer. \<open>startTime\<close>
  is the clock when the request arrives, \<open>doneTime\<close> the clock when the backend has
  answered.
\<close>

record ProxyHandler =
  instanceManager :: Manager
  azureServices :: "string \<rightharpoonup> InstanceConfig"

definition NewProxyHandler :: "Manager \<Rightarrow> ProxyHandler" where
  "NewProxyHandler m =
     \<lparr>instanceManager = m,
      azureServices =
        fold (\<lambda>cfg services. if ProviderType cfg = ''azure'' then services(Name cfg \<mapsto> cfg) else services)
          (configs m) Map.empty\<rparr>"

definition relay_response ::
  "Env \<Rightarrow> ProxyHandler \<Rightarrow> World \<Rightarrow> string \<Rightarrow> TransformResult \<Rightarrow> bool \<Rightarrow> HTTPResponse
     \<Rightarrow> Time \<Rightarrow> Time \<Rightarrow> Response \<times> World" where
  "relay_response env h w selectedInstance transformResult isStreaming resp startTime doneTime =
     (if RespStatusCode resp \<ge> 400 then
        (sendErrorResponse (ParseErrorResponse env resp doneTime),
         recordError w selectedInstance (RespStatusCode resp) doneTime)
      else
        let w' = recordUsage (instanceManager h) w selectedInstance
                   (RequiredTokens transformResult) startTime doneTime
        in (if isStreaming then streamResponse env resp (OriginalModel transformResult)
            else forwardResponse env resp (OriginalModel transformResult) doneTime,
            w'))"

definition call_backend ::
  "Env \<Rightarrow> ProxyHandler \<Rightarrow> World \<Rightarrow> string \<Rightarrow> jmap \<Rightarrow> string \<Rightarrow> string \<Rightarrow> TransformResult
     \<Rightarrow> Time \<Rightarrow> Time \<Rightarrow> Response \<times> World" where
  "call_backend env h w endpoint payload selectedInstance deploymentName transformResult
       startTime doneTime =
     (let isStreaming = (payload ''stream'' = Some (JBool True)) in
      case azureServices h selectedInstance of
        None \<Rightarrow>
          (sendErrorResponse
             (NewInternalError ''Azure service not found for instance''
                [''instance'' \<mapsto> JStr selectedInstance] (Unix startTime)),
           w)
      | Some azureService \<Rightarrow>
          let cleanPayload = CleanRequestMetadata (Payload transformResult) in
          (case (if isStreaming
                 then StreamRequest env azureService endpoint cleanPayload deploymentName doneTime
                 else ProxyRequest env azureService endpoint cleanPayload deploymentName doneTime) of
             Inl proxyErr \<Rightarrow> (sendErrorResponse proxyErr, w)
           | Inr resp \<Rightarrow>
               relay_response env h w selectedInstance transformResult isStreaming resp
                 startTime doneTime))"

definition check_rate_limit ::
  "Env \<Rightarrow> ProxyHandler \<Rightarrow> World \<Rightarrow> string \<Rightarrow> jmap \<Rightarrow> string \<Rightarrow> string \<Rightarrow> TransformResult
     \<Rightarrow> Time \<Rightarrow> Time \<Rightarrow> Response \<times> World" where
  "check_rate_limit env h w endpoint payload selectedInstance deploymentName transformResult
       startTime doneTime =
     (case CheckRateLimit (instanceManager h) w selectedInstance
             (RequiredTokens transformResult) startTime of
        ((hasCapacity, err), w') \<Rightarrow>
          if \<not> hasCapacity then
            (sendErrorResponse
               (NewUpstreamError ''rate limit exceeded'' 429
                  [''instance'' \<mapsto> JStr selectedInstance,
                   ''tokens'' \<mapsto> JInt (RequiredTokens transformResult)] (Unix startTime)),
             w')
          else call_backend env h w' endpoint payload selectedInstance deploymentName
                 transformResult startTime doneTime)"

definition transform_request ::
  "Env \<Rightarrow> ProxyHandler \<Rightarrow> World \<Rightarrow> string \<Rightarrow> jmap \<Rightarrow> string \<Rightarrow> string
     \<Rightarrow> Time \<Rightarrow> Time \<Rightarrow> Response \<times> World" where
  "transform_request env h w endpoint payload modelName selectedInstance startTime doneTime =
     (case GetInstanceConfig (instanceManager h) selectedInstance of
        Inl err \<Rightarrow>
          (sendErrorResponse
             (NewInternalError ''failed to get instance config''
                [''instance'' \<mapsto> JStr selectedInstance, ''error'' \<mapsto> JStr err] (Unix startTime)),
           w)
      | Inr instanceConfig \<Rightarrow>
          let deploymentName = GetDeploymentName modelName (ModelDeployments instanceConfig) in
          (case TransformOpenAIToAzure (tokenEstimator env) endpoint payload deploymentName of
             Inl err \<Rightarrow>
               (sendErrorResponse
                  (NewInternalError ''request transformation failed''
                     [''error'' \<mapsto> JStr err, ''model'' \<mapsto> JStr modelName] (Unix startTime)),
                w)
           | Inr transformResult \<Rightarrow>
               check_rate_limit env h w endpoint payload selectedInstance deploymentName
                 transformResult startTime doneTime))"

text \<open>\<open>payload["model"].(string)\<close>: the empty string when the field is not a string.\<close>

definition model_of :: "jmap \<Rightarrow> string" where
  "model_of payload = (case payload ''model'' of Some (JStr modelName) \<Rightarrow> modelName | _ \<Rightarrow> [])"

definition handleProxyRequest ::
  "Env \<Rightarrow> ProxyHandler \<Rightarrow> World \<Rightarrow> string \<Rightarrow> error + jmap \<Rightarrow> Time \<Rightarrow> Time
     \<Rightarrow> Response res \<times> World" where
  "handleProxyRequest env h w endpoint bound startTime doneTime =
     (case bound of
        Inl err \<Rightarrow>
          (Ok (sendErrorResponse
                 (NewClientError ''invalid JSON payload'' 400 [''error'' \<mapsto> JStr err]
                    (Unix startTime))),
           w)
      | Inr payload \<Rightarrow>
          (case ValidateRequest endpoint payload of
             Some err \<Rightarrow>
               (Ok (sendErrorResponse
                      (NewClientError err 400 [''endpoint'' \<mapsto> JStr endpoint] (Unix startTime))),
                w)
           | None \<Rightarrow>
               (case SelectInstance (sort_Slice env) (instanceManager h) w (model_of payload) 0
                       ''azure'' (rand_Intn env) startTime of
                  (Panic p, w') \<Rightarrow> (Panic p, w')
                | (Err err, w') \<Rightarrow>
                    (Ok (sendErrorResponse
                           (NewInstanceError ''no suitable instance available''
                              [''model'' \<mapsto> JStr (model_of payload), ''endpoint'' \<mapsto> JStr endpoint,
                               ''error'' \<mapsto> JStr err] (Unix startTime))),
                     w')
                | (Ok selectedInstance, w') \<Rightarrow>
                    (case transform_request env h w' endpoint payload (model_of payload)
                            selectedInstance startTime doneTime of
                       (response, w'') \<Rightarrow> (Ok response, w'')))))"

section \<open>Histories of an instance state\<close>

text \<open>
  The three operations that write a stored state, as steps on the state: the accounting
  of a success, the accounting of an error, and the health update. A history is a list
  of steps applied from left to right.
\<close>

datatype state_op =
    Success int Time Time
  | Failure int
  | Health healthCheckResult Time

fun apply_op :: "state_op \<Rightarrow> InstanceState \<Rightarrow> InstanceState" where
  "apply_op (Success tokens startTime now) state = usage_update tokens startTime now state"
| "apply_op (Failure statusCode) state = error_update statusCode state"
| "apply_op (Health result now) state = health_update result now state"

text \<open>The latency of a success in milliseconds, as \<open>usage_update\<close> computes it.\<close>

definition elapsed_ms :: "Time \<Rightarrow> Time \<Rightarrow> real" where
  "elapsed_ms startTime now = real_of_int (Milliseconds (wrap64 (now - startTime)))"

text \<open>
  The exponential moving average with smoothing 0.1, seeded at the first sample and absent
  without samples; the latencies of the successes of a history; and the samples the stored
  average stands for: a healthy health update starts them again from its probe latency.
\<close>

fun ema :: "real list \<Rightarrow> real option" where
  "ema [] = None"
| "ema (x # xs) = Some (foldl (\<lambda>avg sample. 0.9 * avg + 0.1 * sample) x xs)"

fun success_latencies :: "state_op list \<Rightarrow> real list" where
  "success_latencies [] = []"
| "success_latencies (Success tokens startTime now # ops) = elapsed_ms startTime now # success_latencies ops"
| "success_latencies (_ # ops) = success_latencies ops"

fun samples_after :: "state_op list \<Rightarrow> real list \<Rightarrow> real list" where
  "samples_after [] acc = acc"
| "samples_after (Success tokens startTime now # ops) acc =
     samples_after ops (acc @ [elapsed_ms startTime now])"
| "samples_after (Failure statusCode # ops) acc = samples_after ops acc"
| "samples_after (Health result now # ops) acc =
     samples_after ops (if hc_isHealthy result then [real_of_int (hc_latency_ms result)] else acc)"

fun healthy_probe :: "state_op \<Rightarrow> bool" where
  "healthy_probe (Health result now) = hc_isHealthy result"
| "healthy_probe _ = False"

section \<open>Example requests\<close>

text \<open>
  An estimator that answers \<open>n\<close> for every request, and a completion request with a
  given model and \<open>max_tokens\<close>.
\<close>

definition fixed_estimator :: "int \<Rightarrow> TokenEstimator" where
  "fixed_estimator n =
     \<lparr>EstimateChatTokens = (\<lambda>messages functions model provider. Inr n),
      EstimateCompletionTokens = (\<lambda>prompt model provider. Inr n),
      EstimateEmbeddingTokens = (\<lambda>input model provider. Inr n)\<rparr>"

definition completion_payload :: "string \<Rightarrow> json \<Rightarrow> jmap" where
  "completion_payload model maxTokens =
     [''model'' \<mapsto> JStr model, ''prompt'' \<mapsto> JStr ''hi'', ''max_tokens'' \<mapsto> maxTokens]"

section \<open>Example deployment\<close>

text \<open>
  Two Azure instances under failover, \<open>A\<close> before \<open>B\<close>, without rate limiters;
  a world whose state store is up with given blobs; and a state of \<open>A\<close> after five
  successes and five errors.
\<close>

definition managerAB :: Manager where
  "managerAB = \<lparr>configs = [azure_config ''A'' 1 1, azure_config ''B'' 2 1],
                routingStrategy = ''failover'', rateLimiters = Map.empty\<rparr>"

definition world_with :: "(string \<rightharpoonup> InstanceState option) \<Rightarrow> World" where
  "world_with b = \<lparr>stateStore = \<lparr>store_up = True, blobs = b\<rparr>, redis = redis_down\<rparr>"

definition failing_state :: InstanceState where
  "failing_state = (NewInstanceState ''A'' 0)\<lparr>ErrorCount := 5, TotalErrors500 := 5,
                      TotalRequests := 10, SuccessfulRequests := 5\<rparr>"

section \<open>What a relayed response must satisfy\<close>


section \<open>Example environment\<close>

text \<open>
  A decoder that knows one chunk, an environment with the insertion sort, a fixed
  estimate and a given backend, a backend that streams that chunk and the terminator, a
  streaming request for \<open>GPT-4\<close>, and a deployment of the one instance \<open>A\<close> with
  \<open>max_tpm = 100\<close> and its rate limiter, over a given window.
\<close>

definition toy_unmarshal :: "string \<Rightarrow> jmap option" where
  "toy_unmarshal s =
     (if s = ''{id:x,model:gpt-4-0613}'' then Some [''id'' \<mapsto> JStr ''x'', ''model'' \<mapsto> JStr ''gpt-4-0613'']
      else None)"

definition example_env ::
  "int \<Rightarrow> (InstanceConfig \<Rightarrow> string \<Rightarrow> jmap \<Rightarrow> string \<Rightarrow> error + HTTPResponse) \<Rightarrow> Env" where
  "example_env n backend =
     \<lparr>sort_Slice = insertionSortLessFunc, rand_Intn = 0, tokenEstimator = fixed_estimator n,
      json_Unmarshal = toy_unmarshal, json_Marshal_ok = (\<lambda>m. True), client_Do = backend\<rparr>"

definition streaming_backend :: "InstanceConfig \<Rightarrow> string \<Rightarrow> jmap \<Rightarrow> string \<Rightarrow> error + HTTPResponse" where
  "streaming_backend cfg endpoint payload deploymentName =
     Inr \<lparr>RespStatusCode = 200, RespHeader = [], RespBody = Inl ''body is streamed'',
          RespLines = [''data: {id:x,model:gpt-4-0613}'', [], ''data: [DONE]'', []]\<rparr>"

definition streaming_request :: jmap where
  "streaming_request = [''model'' \<mapsto> JStr ''GPT-4'', ''prompt'' \<mapsto> JStr ''hi'', ''stream'' \<mapsto> JBool True]"

definition managerA_limited :: Manager where
  "managerA_limited =
     \<lparr>configs = [(azure_config ''A'' 1 1)\<lparr>MaxTPM := 100, RateLimitEnabled := True\<rparr>],
      routingStrategy = ''failover'', rateLimiters = [''A'' \<mapsto> limiterA]\<rparr>"

definition world_limited :: "Z list \<Rightarrow> World" where
  "world_limited zs = \<lparr>stateStore = \<lparr>store_up = True, blobs = Map.empty\<rparr>, redis = redis_with zs\<rparr>"

section \<open>Properties\<close>

lemma wrap64_id: "in64 x \<Longrightarrow> wrap64 x = x"
  by (simp add: wrap64_def in64_def)

lemma wrap64_add_left: "wrap64 (wrap64 a + b) = wrap64 (a + b)"
proof -
  have "(((a + 2 ^ 63) mod 2 ^ 64 - 2 ^ 63 + b) + 2 ^ 63) mod 2 ^ 64 = ((a + 2 ^ 63) mod 2 ^ 64 + b) mod (2 ^ 64 :: int)"
    by (simp add: algebra_simps)
  also have "\<dots> = ((a + 2 ^ 63) + b) mod 2 ^ 64"
    by (rule mod_add_left_eq)
  finally show ?thesis
    by (simp add: wrap64_def algebra_simps)
qed

lemma usage_loop_fst:
  "wrap64 (fst (usage_loop es cu ot) + t) = wrap64 (cu + current_usage es + t)"
proof (induction es arbitrary: cu ot)
  case Nil
  then show ?case by (simp add: current_usage_def)
next
  case (Cons e es)
  show ?case
  proof (cases "token_part e")
    case None
    then show ?thesis using Cons.IH [of cu ot]
      by (simp add: current_usage_def token_part_def)
  next
    case (Some tc)
    have "wrap64 (fst (usage_loop es (wrap64 (cu + tc)) (if snd e < ot then snd e else ot)) + t)
          = wrap64 (wrap64 (cu + tc) + (current_usage es + t))"
      using Cons.IH [of "wrap64 (cu + tc)"] by (simp add: add.assoc)
    also have "\<dots> = wrap64 (cu + tc + (current_usage es + t))"
      by (rule wrap64_add_left)
    finally show ?thesis using Some
      by (simp add: current_usage_def token_part_def add.assoc)
  qed
qed

lemma Min_insert_insert:
  fixes a b :: int
  assumes "finite S"
  shows "Min (insert a (insert b S)) = Min (insert (min b a) S)"
proof (cases "S = {}")
  case True
  then show ?thesis by (simp add: min.commute)
next
  case False
  then show ?thesis using assms
    by (simp add: min.assoc min.commute min.left_commute)
qed

lemma usage_loop_snd:
  "snd (usage_loop es cu ot) = oldest_time ot es"
proof (induction es arbitrary: cu ot)
  case Nil
  then show ?case by (simp add: oldest_time_def)
next
  case (Cons e es)
  define S where "S = snd ` {x \<in> set es. token_part x \<noteq> None}"
  have fin: "finite S" by (simp add: S_def)
  show ?case
  proof (cases "token_part e")
    case None
    then have "{x \<in> set (e # es). token_part x \<noteq> None} = {x \<in> set es. token_part x \<noteq> None}"
      by auto
    then have "oldest_time ot (e # es) = oldest_time ot es"
      by (simp only: oldest_time_def)
    then show ?thesis using None Cons.IH [of cu ot]
      by (simp add: token_part_def)
  next
    case (Some tc)
    then have "{x \<in> set (e # es). token_part x \<noteq> None} = insert e {x \<in> set es. token_part x \<noteq> None}"
      by auto
    then have "oldest_time ot (e # es) = Min (insert ot (insert (snd e) S))"
      by (simp only: oldest_time_def S_def image_insert)
    also have "\<dots> = Min (insert (min (snd e) ot) S)"
      by (rule Min_insert_insert [OF fin])
    also have "\<dots> = oldest_time (min (snd e) ot) es"
      by (simp only: oldest_time_def S_def)
    finally have "oldest_time ot (e # es) = oldest_time (min (snd e) ot) es" .
    moreover have "min (snd e) ot = (if snd e < ot then snd e else ot)" by auto
    ultimately have "oldest_time ot (e # es) = oldest_time (if snd e < ot then snd e else ot) es"
      by simp
    then show ?thesis
      using Some Cons.IH [of "wrap64 (cu + tc)" "if snd e < ot then snd e else ot"]
      by (simp add: token_part_def)
  qed
qed

lemma oldest_time_le: "oldest_time now es \<le> now"
  by (simp add: oldest_time_def)

lemma oldest_time_gt:
  assumes "\<forall>e \<in> set es. c < snd e" and "c < now"
  shows "c < oldest_time now es"
proof -
  have "\<forall>x \<in> insert now (snd ` {e \<in> set es. token_part e \<noteq> None}). c < x"
    using assms by auto
  then show ?thesis unfolding oldest_time_def
    by (subst Min_gr_iff) auto
qed

text \<open>
  Claim C1, as the code has it. A request above a positive \<open>max_input_tokens\<close> is
  denied with retry-after 60 whatever the window holds. Otherwise, with the store
  reachable, the entries with score at most \<open>now - 60\<close> are evicted, the token parts
  of the remaining entries are summed to the current usage, and the request is admitted
  with retry-after 0 when current usage plus tokens is at most \<open>max_tpm\<close>, and denied
  otherwise with retry-after \<open>max 1 (oldest - (now - 60))\<close>, where \<open>oldest\<close> is the
  least of \<open>now\<close> and the scores of the remaining entries that have a token part.
  Every denial has a retry-after of at least 1. The sums are assumed to stay within
  Go's 64-bit \<open>int\<close>.
\<close>

theorem CheckCapacity_amended:
  assumes w: "windowSeconds rl = 60" and c: "in64 (now - 60)"
    and u: "in64 (current_usage (remaining_entries now (zsets r (redisKey rl))) + tokens)"
  shows "(maxInputTokens rl > 0 \<and> tokens > maxInputTokens rl \<longrightarrow>
            CheckCapacity rl now r tokens = ((False, 60, None), r))
       \<and> (\<not> (maxInputTokens rl > 0 \<and> tokens > maxInputTokens rl) \<and> reachable r \<longrightarrow>
            CheckCapacity rl now r tokens =
              (let es = remaining_entries now (zsets r (redisKey rl)) in
               (if current_usage es + tokens \<le> tokensPerMinute rl then (True, 0, None)
                else (False, max 1 (oldest_time now es - (now - 60)), None),
                r\<lparr>zsets := (zsets r)(redisKey rl := es)\<rparr>)))
       \<and> (\<forall>ra err r'. CheckCapacity rl now r tokens = ((False, ra, err), r') \<longrightarrow> 1 \<le> ra)"
proof (intro conjI impI allI)
  assume "maxInputTokens rl > 0 \<and> tokens > maxInputTokens rl"
  then show "CheckCapacity rl now r tokens = ((False, 60, None), r)"
    by (simp add: CheckCapacity_def)
next
  assume a: "\<not> (maxInputTokens rl > 0 \<and> tokens > maxInputTokens rl) \<and> reachable r"
  define es where "es = remaining_entries now (zsets r (redisKey rl))"
  have cut: "wrap64 (now - windowSeconds rl) = now - 60"
    using w c by (simp add: wrap64_id)
  have kept: "ZRemRangeByScore (now - 60) (zsets r (redisKey rl)) = es"
    by (simp add: ZRemRangeByScore_def es_def remaining_entries_def not_le)
  have pipe: "check_pipeline (redisKey rl) (now - 60) r
                = Inr (es, r\<lparr>zsets := (zsets r)(redisKey rl := es)\<rparr>)"
    using a kept by (simp add: check_pipeline_def)
  obtain cu ot where loop: "usage_loop es 0 now = (cu, ot)"
    by (cases "usage_loop es 0 now")
  have cu: "wrap64 (cu + tokens) = current_usage es + tokens"
    using usage_loop_fst [of es 0 now tokens] loop u by (simp add: es_def wrap64_id)
  have ot: "ot = oldest_time now es"
    using usage_loop_snd [of es 0 now] loop by simp
  have "\<forall>e \<in> set es. now - 60 < snd e"
    by (simp add: es_def remaining_entries_def)
  then have lo: "now - 60 < oldest_time now es"
    by (rule oldest_time_gt) simp
  have hi: "oldest_time now es \<le> now" by (rule oldest_time_le)
  have "in64 (oldest_time now es - (now - 60))"
    using lo hi by (simp add: in64_def)
  then have ra: "wrap64 (ot - (now - 60)) = oldest_time now es - (now - 60)"
    by (simp add: ot wrap64_id)
  show "CheckCapacity rl now r tokens =
          (let es = remaining_entries now (zsets r (redisKey rl)) in
           (if current_usage es + tokens \<le> tokensPerMinute rl then (True, 0, None)
            else (False, max 1 (oldest_time now es - (now - 60)), None),
            r\<lparr>zsets := (zsets r)(redisKey rl := es)\<rparr>))"
    using a lo
    by (auto simp add: CheckCapacity_def cut pipe loop cu ra es_def [symmetric] Let_def max_def not_le)
next
  fix ra err r'
  assume "CheckCapacity rl now r tokens = ((False, ra, err), r')"
  then show "1 \<le> ra"
    by (auto simp: CheckCapacity_def Let_def split: if_splits sum.splits prod.splits)
qed

theorem CheckCapacity_amended_witness:
  "windowSeconds limiterA = 60 \<and> in64 (1000 - 60)
   \<and> in64 (current_usage (remaining_entries 1000 (zsets (redis_with [(''90:17'', 990), (''80:3'', 940)]) (redisKey limiterA))) + 20)
   \<and> CheckCapacity limiterA 1000 (redis_with [(''90:17'', 990), (''80:3'', 940)]) 20
         = ((False, 50, None), redis_with [(''90:17'', 990)])
   \<and> CheckCapacity limiterA 1000 (redis_with [(''90:17'', 990), (''80:3'', 940)]) 10
         = ((True, 0, None), redis_with [(''90:17'', 990)])"
proof -
  have cu: "current_usage (remaining_entries 1000 (zsets (redis_with [(''90:17'', 990), (''80:3'', 940)]) (redisKey limiterA))) = 90"
    by (simp add: redis_with_def remaining_entries_def current_usage_def token_part_def
        Atoi_def split_colon_first_def is_digit_def digits_value_def in64_def)
  have ot: "oldest_time 1000 (remaining_entries 1000 (zsets (redis_with [(''90:17'', 990), (''80:3'', 940)]) (redisKey limiterA))) = 990"
    by (simp add: redis_with_def remaining_entries_def oldest_time_def token_part_def
        Atoi_def split_colon_first_def is_digit_def digits_value_def in64_def)
  have w: "windowSeconds limiterA = 60"
    by (simp add: limiterA_def NewRateLimiter_def)
  have c: "in64 (1000 - 60)" by (simp add: in64_def)
  have u20: "in64 (current_usage (remaining_entries 1000 (zsets (redis_with [(''90:17'', 990), (''80:3'', 940)]) (redisKey limiterA))) + 20)"
    by (simp add: cu in64_def)
  have u10: "in64 (current_usage (remaining_entries 1000 (zsets (redis_with [(''90:17'', 990), (''80:3'', 940)]) (redisKey limiterA))) + 10)"
    by (simp add: cu in64_def)
  have rem: "remaining_entries 1000 (zsets (redis_with [(''90:17'', 990), (''80:3'', 940)]) (redisKey limiterA)) = [(''90:17'', 990)]"
    by (simp add: redis_with_def remaining_entries_def)
  have d: "CheckCapacity limiterA 1000 (redis_with [(''90:17'', 990), (''80:3'', 940)]) 20
         = ((False, 50, None), redis_with [(''90:17'', 990)])"
    using CheckCapacity_amended [OF w c u20] cu ot
    by (simp add: rem) (simp add: limiterA_def NewRateLimiter_def redis_with_def)
  have a: "CheckCapacity limiterA 1000 (redis_with [(''90:17'', 990), (''80:3'', 940)]) 10
         = ((True, 0, None), redis_with [(''90:17'', 990)])"
    using CheckCapacity_amended [OF w c u10] cu ot
    by (simp add: rem) (simp add: limiterA_def NewRateLimiter_def redis_with_def)
  show ?thesis using w c u20 d a by simp
qed

text \<open>
  Claim C1 as worded fails where the oldest remaining entry is not what the code
  subtracts from: an entry written one tick after the check read its clock has a score
  above \<open>now\<close>; the code then starts from \<open>now\<close> and answers 60, the wording
  gives 65.
\<close>

theorem CheckCapacity_retry_after_counterexample:
  "fst (CheckCapacity limiterA 1000 (redis_with [(''90:1'', 1005)]) 20) = (False, 60, None)
   \<and> claimed_retry_after 1000 (remaining_entries 1000 [(''90:1'', 1005)]) = 65"
  by (simp add: CheckCapacity_def limiterA_def NewRateLimiter_def redis_with_def
      check_pipeline_def ZRemRangeByScore_def remaining_entries_def claimed_retry_after_def
      Atoi_def split_colon_first_def is_digit_def digits_value_def in64_def wrap64_def Let_def)

text \<open>
  Claim C6. A call of \<open>CheckCapacity\<close> that reaches the pipeline (the request is not
  above a positive \<open>max_input_tokens\<close>) while the store fails admits the request with
  retry-after 0, returns no error and leaves the store as it was.
\<close>

theorem CheckCapacity_fail_open:
  assumes "\<not> reachable r"
    and "\<not> (0 < maxInputTokens rl \<and> maxInputTokens rl < tokens)"
  shows "CheckCapacity rl now r tokens = ((True, 0, None), r)"
  using assms by (auto simp: CheckCapacity_def check_pipeline_def Let_def)

theorem CheckCapacity_fail_open_witness:
  "\<not> reachable redis_down \<and> \<not> (0 < maxInputTokens limiterA \<and> maxInputTokens limiterA < 500)
   \<and> CheckCapacity limiterA 1000 redis_down 500 = ((True, 0, None), redis_down)"
proof -
  have d: "\<not> reachable redis_down" by (simp add: redis_down_def)
  have m: "\<not> (0 < maxInputTokens limiterA \<and> maxInputTokens limiterA < 500)"
    by (simp add: limiterA_def NewRateLimiter_def)
  show ?thesis using d m CheckCapacity_fail_open [OF d m, of 1000] by simp
qed

lemma sorts_by_hd_minimal:
  assumes s: "sorts_by lt srt" and ne: "xs \<noteq> []"
  shows "srt lt xs \<noteq> [] \<and> hd (srt lt xs) \<in> set xs \<and> (\<forall>j \<in> set xs. j \<noteq> hd (srt lt xs) \<longrightarrow> \<not> lt j (hd (srt lt xs)))"
proof -
  have m: "mset (srt lt xs) = mset xs" and so: "sorted_wrt (\<lambda>a b. \<not> lt b a) (srt lt xs)"
    using s by (simp_all add: sorts_by_def)
  from m ne have ne': "srt lt xs \<noteq> []" by auto
  then obtain y ys where ys: "srt lt xs = y # ys" by (cases "srt lt xs") auto
  have st: "set (srt lt xs) = set xs" using m by (rule mset_eq_setD)
  have "\<forall>j \<in> set ys. \<not> lt j y" using so ys by simp
  then show ?thesis using ys st ne' by auto
qed

lemma mset_move_left: "mset (move_left lt x ys) = add_mset x (mset ys)"
  by (induction ys) simp_all

lemma set_move_left: "set (move_left lt x ys) = insert x (set ys)"
  by (induction ys) auto

lemma mset_fold_move_left: "mset (fold (move_left lt) xs acc) = mset xs + mset acc"
  by (induction xs arbitrary: acc) (simp_all add: mset_move_left)

lemma sorted_move_left:
  fixes key :: "'a \<Rightarrow> int"
  assumes "sorted_wrt (\<lambda>a b. \<not> key a < key b) ys"
  shows "sorted_wrt (\<lambda>a b. \<not> key a < key b) (move_left (\<lambda>a b. key a < key b) x ys)"
  using assms by (induction ys) (auto simp: set_move_left)

lemma sorted_fold_move_left:
  fixes key :: "'a \<Rightarrow> int"
  assumes "sorted_wrt (\<lambda>a b. \<not> key a < key b) acc"
  shows "sorted_wrt (\<lambda>a b. \<not> key a < key b) (fold (move_left (\<lambda>a b. key a < key b)) xs acc)"
  using assms by (induction xs arbitrary: acc) (simp_all add: sorted_move_left)

lemma insertionSort_sorts_by_key:
  fixes key :: "'a \<Rightarrow> int"
  shows "sorts_by (\<lambda>a b. key a < key b) insertionSortLessFunc"
proof -
  have "sorted_wrt (\<lambda>a b. \<not> key a < key b) (fold (move_left (\<lambda>a b. key a < key b)) xs [])" for xs
    by (rule sorted_fold_move_left) simp
  then have "sorted_wrt (\<lambda>a b. \<not> key b < key a) (rev (fold (move_left (\<lambda>a b. key a < key b)) xs []))" for xs
    by (simp add: sorted_wrt_rev)
  then show ?thesis
    by (simp add: sorts_by_def insertionSortLessFunc_def mset_fold_move_left)
qed

lemma insertionSort_sorts_by_priority: "sorts_by priority_less insertionSortLessFunc"
  using insertionSort_sorts_by_key [of "\<lambda>a::instanceWithState. Priority (Config a)"]
  unfolding sorts_by_def priority_less_def [abs_def] .


text \<open>
  Claim C7, as the code has it. For every non-empty list of eligible instances, failover
  returns the name of an instance whose priority is minimal. Which of several instances
  of minimal priority it is depends on \<open>sort.Slice\<close> alone; the name takes no part.
\<close>

theorem selectByFailover_minimal_priority:
  assumes "sorts_by priority_less srt" and "instances \<noteq> []"
  shows "\<exists>i \<in> set instances. selectByFailover srt instances = Ok (Name (Config i))
           \<and> (\<forall>j \<in> set instances. Priority (Config i) \<le> Priority (Config j))"
proof -
  let ?h = "hd (srt priority_less instances)"
  from sorts_by_hd_minimal [OF assms]
  have ne: "srt priority_less instances \<noteq> []" and h: "?h \<in> set instances"
    and mn: "\<forall>j \<in> set instances. j \<noteq> ?h \<longrightarrow> \<not> priority_less j ?h" by simp_all
  have "selectByFailover srt instances = Ok (Name (Config ?h))"
    using ne by (cases "srt priority_less instances") (simp_all add: selectByFailover_def first_name_def)
  moreover have "\<forall>j \<in> set instances. Priority (Config ?h) \<le> Priority (Config j)"
    using mn by (auto simp: priority_less_def not_less)
  ultimately show ?thesis using h by blast
qed

theorem selectByFailover_minimal_priority_witness:
  "\<exists>i \<in> set [fresh_instance ''A'' 2 1, fresh_instance ''B'' 1 1].
     selectByFailover insertionSortLessFunc [fresh_instance ''A'' 2 1, fresh_instance ''B'' 1 1]
       = Ok (Name (Config i))
     \<and> (\<forall>j \<in> set [fresh_instance ''A'' 2 1, fresh_instance ''B'' 1 1].
           Priority (Config i) \<le> Priority (Config j))"
proof -
  have ne: "[fresh_instance ''A'' 2 1, fresh_instance ''B'' 1 1] \<noteq> []" by simp
  show ?thesis
    by (rule selectByFailover_minimal_priority [OF insertionSort_sorts_by_priority ne])
qed

text \<open>
  Claim C7 as worded fails: two instances of equal priority are returned in the order of
  the list, whatever their names.
\<close>

theorem selectByFailover_tie_counterexample:
  "selectByFailover insertionSortLessFunc [fresh_instance ''b'' 1 1, fresh_instance ''a'' 1 1] = Ok ''b''
   \<and> selectByFailover insertionSortLessFunc [fresh_instance ''a'' 1 1, fresh_instance ''b'' 1 1] = Ok ''a''"
  by (simp add: selectByFailover_def insertionSortLessFunc_def first_name_def priority_less_def
      fresh_instance_def azure_config_def)

lemma sum_weights_nonneg:
  "\<forall>i \<in> set xs. 0 \<le> Weight (Config i) \<Longrightarrow> 0 \<le> sum_list (weights xs)"
  by (induction xs) (simp_all add: weights_def)

lemma fold_totalWeight:
  assumes "\<forall>i \<in> set xs. 0 \<le> Weight (Config i)" and "0 \<le> c" and "in64 (c + sum_list (weights xs))"
  shows "fold (\<lambda>i t. wrap64 (t + Weight (Config i))) xs c = c + sum_list (weights xs)"
  using assms
proof (induction xs arbitrary: c)
  case Nil
  then show ?case by (simp add: weights_def)
next
  case (Cons x xs)
  have nn: "0 \<le> sum_list (weights xs)" using Cons.prems(1) by (simp add: sum_weights_nonneg)
  have x0: "0 \<le> Weight (Config x)" using Cons.prems(1) by simp
  have "in64 (c + Weight (Config x))"
    using Cons.prems(2,3) nn x0 by (simp add: in64_def weights_def)
  then have w: "wrap64 (c + Weight (Config x)) = c + Weight (Config x)" by (rule wrap64_id)
  have "fold (\<lambda>i t. wrap64 (t + Weight (Config i))) xs (c + Weight (Config x))
          = c + Weight (Config x) + sum_list (weights xs)"
    using Cons.prems x0 by (intro Cons.IH) (simp_all add: weights_def add.assoc)
  then show ?case by (simp add: w weights_def add.assoc)
qed

lemma totalWeight_eq:
  assumes "\<forall>i \<in> set xs. 0 \<le> Weight (Config i)" and "in64 (sum_list (weights xs))"
  shows "totalWeight xs = sum_list (weights xs)"
  using fold_totalWeight [OF assms(1), of 0] assms(2) by (simp add: totalWeight_def)

lemma find_map_Suc:
  "find P (map Suc ks) = map_option Suc (find (\<lambda>k. P (Suc k)) ks)"
  by (induction ks) simp_all

lemma upt_Suc_shift: "[0..<Suc n] = 0 # map Suc [0..<n]"
  by (simp add: upt_conv_Cons map_Suc_upt del: upt_Suc)

lemma weight_walk_find:
  assumes "\<forall>i \<in> set xs. 0 \<le> Weight (Config i)" and "0 \<le> c" and "in64 (c + sum_list (weights xs))"
  shows "weight_walk xs t c =
           map_option (\<lambda>k. Name (Config (xs ! k)))
             (find (\<lambda>k. t < c + prefix_weight xs k) [0..<length xs])"
  using assms
proof (induction xs arbitrary: c)
  case Nil
  then show ?case by simp
next
  case (Cons x xs)
  have nn: "0 \<le> sum_list (weights xs)" using Cons.prems(1) by (simp add: sum_weights_nonneg)
  have x0: "0 \<le> Weight (Config x)" using Cons.prems(1) by simp
  have "in64 (c + Weight (Config x))"
    using Cons.prems(2,3) nn x0 by (simp add: in64_def weights_def)
  then have w: "wrap64 (c + Weight (Config x)) = c + Weight (Config x)" by (rule wrap64_id)
  have p0: "prefix_weight (x # xs) 0 = Weight (Config x)"
    by (simp add: prefix_weight_def weights_def)
  have pS: "prefix_weight (x # xs) (Suc k) = Weight (Config x) + prefix_weight xs k" for k
    by (simp add: prefix_weight_def weights_def)
  have IH: "weight_walk xs t (c + Weight (Config x)) =
           map_option (\<lambda>k. Name (Config (xs ! k)))
             (find (\<lambda>k. t < c + Weight (Config x) + prefix_weight xs k) [0..<length xs])"
    using Cons.prems x0 by (intro Cons.IH) (simp_all add: weights_def add.assoc)
  have "[0..<length (x # xs)] = 0 # map Suc [0..<length xs]"
    by (simp add: upt_Suc_shift del: upt_Suc)
  then show ?case
    by (simp add: w p0 pS IH find_map_Suc option.map_comp comp_def add.assoc del: upt_Suc)
qed


lemma prefix_weight_mono:
  assumes nn: "\<forall>i \<in> set xs. 0 \<le> Weight (Config i)" and jk: "j < k"
  shows "prefix_weight xs j \<le> sum_list (weights (take k xs))"
proof -
  have "take (Suc j) (take k xs) @ drop (Suc j) (take k xs) = take k xs"
    by (rule append_take_drop_id)
  moreover have "take (Suc j) (take k xs) = take (Suc j) xs" using jk by (simp add: min_def)
  ultimately have "take k xs = take (Suc j) xs @ drop (Suc j) (take k xs)" by simp
  then have "sum_list (weights (take k xs))
      = sum_list (weights (take (Suc j) xs)) + sum_list (weights (drop (Suc j) (take k xs)))"
    by (metis map_append sum_list_append weights_def)
  moreover have "0 \<le> sum_list (weights (drop (Suc j) (take k xs)))"
  proof (rule sum_weights_nonneg)
    show "\<forall>i\<in>set (drop (Suc j) (take k xs)). 0 \<le> Weight (Config i)"
      using nn by (meson in_set_dropD in_set_takeD)
  qed
  ultimately show ?thesis by (simp add: prefix_weight_def)
qed

lemma first_exceeding_iff:
  assumes nn: "\<forall>i \<in> set xs. 0 \<le> Weight (Config i)" and t0: "0 \<le> t" and k: "k < length xs"
  shows "first_exceeding xs t = Some k \<longleftrightarrow>
           sum_list (weights (take k xs)) \<le> t \<and> t < prefix_weight xs k"
proof
  assume "first_exceeding xs t = Some k"
  then have P: "t < prefix_weight xs k" and Q: "\<forall>j<k. \<not> t < prefix_weight xs j"
    using k by (auto simp: first_exceeding_def find_Some_iff)
  have "sum_list (weights (take k xs)) \<le> t"
  proof (cases k)
    case 0
    then show ?thesis using t0 by (simp add: weights_def)
  next
    case (Suc j)
    then have "\<not> t < prefix_weight xs j" using Q by simp
    then show ?thesis using Suc by (simp add: prefix_weight_def)
  qed
  then show "sum_list (weights (take k xs)) \<le> t \<and> t < prefix_weight xs k" using P by simp
next
  assume a: "sum_list (weights (take k xs)) \<le> t \<and> t < prefix_weight xs k"
  have "\<not> t < prefix_weight xs j" if "j < k" for j
    using prefix_weight_mono [OF nn that] a by simp
  then show "first_exceeding xs t = Some k"
    using a k by (auto simp: first_exceeding_def find_Some_iff intro!: exI [of _ k])
qed

lemma prefix_weight_last:
  "xs \<noteq> [] \<Longrightarrow> prefix_weight xs (length xs - Suc 0) = sum_list (weights xs)"
  by (cases xs) (simp_all add: prefix_weight_def)

lemma first_exceeding_Some:
  assumes "t < sum_list (weights xs)" and "xs \<noteq> []"
  shows "\<exists>k < length xs. first_exceeding xs t = Some k"
proof -
  have "length xs - Suc 0 \<in> set [0..<length xs]" using assms(2) by simp
  moreover have "t < prefix_weight xs (length xs - Suc 0)"
    using assms by (simp add: prefix_weight_last)
  ultimately have "find (\<lambda>k. t < prefix_weight xs k) [0..<length xs] \<noteq> None"
    unfolding find_None_iff by blast
  then obtain k where f: "find (\<lambda>k. t < prefix_weight xs k) [0..<length xs] = Some k" by auto
  then have "k < length xs" by (auto simp: find_Some_iff)
  then show ?thesis using f by (auto simp: first_exceeding_def)
qed

text \<open>
  Claim C9. With weights that are not negative and a positive total within the range of
  \<open>int\<close>: for every target, weighted selection returns the first instance in list
  order whose prefix sum of weights exceeds the target, and the first instance when no
  prefix sum does. When the names are distinct, the targets in \<open>[0, total)\<close> that
  select an instance are as many as its weight, so under a uniform draw it is chosen with
  probability weight / total.
\<close>

theorem selectByWeight_prefix_sum:
  assumes nn: "\<forall>i \<in> set instances. 0 \<le> Weight (Config i)"
    and pos: "0 < sum_list (weights instances)"
    and rng: "in64 (sum_list (weights instances))"
  shows "(\<forall>target. selectByWeight instances target =
            Ok (Name (Config (case first_exceeding instances target of
                                Some k \<Rightarrow> instances ! k | None \<Rightarrow> hd instances))))
       \<and> (distinct (map (\<lambda>i. Name (Config i)) instances) \<longrightarrow>
            (\<forall>k < length instances.
               int (card {target \<in> {0..<sum_list (weights instances)}.
                     selectByWeight instances target = Ok (Name (Config (instances ! k)))})
                 = Weight (Config (instances ! k))))"
proof (intro conjI allI impI)
  have ne: "instances \<noteq> []" using pos by (auto simp: weights_def)
  have tw: "totalWeight instances = sum_list (weights instances)"
    using nn rng by (rule totalWeight_eq)
  have fn: "first_name instances = Ok (Name (Config (hd instances)))"
    using ne by (cases instances) (simp_all add: first_name_def)
  have walk: "weight_walk instances t 0 =
      map_option (\<lambda>k. Name (Config (instances ! k))) (first_exceeding instances t)" for t
    using weight_walk_find [OF nn, of 0 t] rng by (simp add: first_exceeding_def)
  show sel: "selectByWeight instances target =
            Ok (Name (Config (case first_exceeding instances target of
                                Some k \<Rightarrow> instances ! k | None \<Rightarrow> hd instances)))" for target
    using pos fn
    by (cases "first_exceeding instances target")
       (simp_all add: selectByWeight_def tw walk)
  fix k
  assume d: "distinct (map (\<lambda>i. Name (Config i)) instances)" and k: "k < length instances"
  let ?a = "sum_list (weights (take k instances))"
  let ?b = "prefix_weight instances k"
  let ?S = "{target \<in> {0..<sum_list (weights instances)}.
              selectByWeight instances target = Ok (Name (Config (instances ! k)))}"
  have a0: "0 \<le> ?a" using nn by (intro sum_weights_nonneg) (meson in_set_takeD)
  have ab: "?b = ?a + Weight (Config (instances ! k))"
    using k by (simp add: prefix_weight_def weights_def take_Suc_conv_app_nth)
  have bt: "?b \<le> sum_list (weights instances)"
  proof (cases "Suc k < length instances")
    case True
    have "?b \<le> sum_list (weights (take (length instances) instances))"
      using prefix_weight_mono [OF nn, of k "length instances"] k by simp
    then show ?thesis by simp
  next
    case False
    then have "Suc k = length instances" using k by simp
    then show ?thesis by (simp add: prefix_weight_def)
  qed
  have "?S = {?a..<?b}"
  proof (intro set_eqI iffI)
    fix t assume "t \<in> ?S"
    then have t: "0 \<le> t" "t < sum_list (weights instances)"
      and s: "selectByWeight instances t = Ok (Name (Config (instances ! k)))" by simp_all
    obtain k' where k': "k' < length instances" "first_exceeding instances t = Some k'"
      using first_exceeding_Some [OF t(2) ne] by blast
    have "Name (Config (instances ! k')) = Name (Config (instances ! k))"
      using s sel [of t] k' by simp
    then have "map (\<lambda>i. Name (Config i)) instances ! k' = map (\<lambda>i. Name (Config i)) instances ! k"
      using k k' by simp
    then have "k' = k"
      using nth_eq_iff_index_eq [OF d, of k' k] k k' by simp
    then show "t \<in> {?a..<?b}"
      using k' first_exceeding_iff [OF nn t(1) k] by simp
  next
    fix t assume "t \<in> {?a..<?b}"
    then have t: "?a \<le> t" "t < ?b" by simp_all
    have t0: "0 \<le> t" using a0 t by simp
    have "first_exceeding instances t = Some k"
      using first_exceeding_iff [OF nn t0 k] t by simp
    then have "selectByWeight instances t = Ok (Name (Config (instances ! k)))"
      using sel [of t] by simp
    then show "t \<in> ?S" using t0 t bt by simp
  qed
  then have "int (card ?S) = int (card {?a..<?b})" by simp
  also have "\<dots> = Weight (Config (instances ! k))"
    using ab nn k by simp
  finally show "int (card ?S) = Weight (Config (instances ! k))" .
qed

theorem selectByWeight_prefix_sum_witness:
  "list_all (\<lambda>i. 0 \<le> Weight (Config i))
     [fresh_instance ''a'' 1 1, fresh_instance ''b'' 1 2, fresh_instance ''c'' 1 7]
   \<and> 0 < sum_list (weights [fresh_instance ''a'' 1 1, fresh_instance ''b'' 1 2, fresh_instance ''c'' 1 7])
   \<and> selectByWeight [fresh_instance ''a'' 1 1, fresh_instance ''b'' 1 2, fresh_instance ''c'' 1 7] 2 = Ok ''b''
   \<and> int (card {target \<in> {0..<10}.
         selectByWeight [fresh_instance ''a'' 1 1, fresh_instance ''b'' 1 2, fresh_instance ''c'' 1 7] target
           = Ok ''c''}) = 7"
proof -
  let ?xs = "[fresh_instance ''a'' 1 1, fresh_instance ''b'' 1 2, fresh_instance ''c'' 1 7]"
  have nn: "\<forall>i \<in> set ?xs. 0 \<le> Weight (Config i)"
    by (simp add: fresh_instance_def azure_config_def)
  have tot: "sum_list (weights ?xs) = 10"
    by (simp add: weights_def fresh_instance_def azure_config_def)
  have pos: "0 < sum_list (weights ?xs)" by (simp add: tot)
  have rng: "in64 (sum_list (weights ?xs))" by (simp add: tot in64_def)
  have d: "distinct (map (\<lambda>i. Name (Config i)) ?xs)"
    by (simp add: fresh_instance_def azure_config_def)
  have fe: "first_exceeding ?xs 2 = Some 1"
    by (simp add: first_exceeding_def prefix_weight_def weights_def fresh_instance_def
        azure_config_def upt_conv_Cons)
  note main = selectByWeight_prefix_sum [OF nn pos rng]
  have "selectByWeight ?xs 2 = Ok ''b''"
  proof -
    from main have "selectByWeight ?xs 2 =
        Ok (Name (Config (case first_exceeding ?xs 2 of Some k \<Rightarrow> ?xs ! k | None \<Rightarrow> hd ?xs)))"
      by blast
    then have "selectByWeight ?xs 2 = Ok (Name (Config (?xs ! 1)))"
      by (simp only: fe option.case)
    moreover have "Name (Config (?xs ! 1)) = ''b''"
      by (simp add: fresh_instance_def azure_config_def)
    ultimately show ?thesis by (simp only:)
  qed
  moreover have "int (card {target \<in> {0..<10}. selectByWeight ?xs target = Ok ''c''}) = 7"
  proof -
    have k2: "(2::nat) < length ?xs" by simp
    have n2: "Name (Config (?xs ! 2)) = ''c''" and w2: "Weight (Config (?xs ! 2)) = 7"
      by (simp_all add: fresh_instance_def azure_config_def)
    from main d have "\<forall>k < length ?xs.
        int (card {target \<in> {0..<sum_list (weights ?xs)}.
               selectByWeight ?xs target = Ok (Name (Config (?xs ! k)))})
          = Weight (Config (?xs ! k))" by blast
    with k2 have "int (card {target \<in> {0..<sum_list (weights ?xs)}.
               selectByWeight ?xs target = Ok (Name (Config (?xs ! 2)))})
          = Weight (Config (?xs ! 2))" by blast
    then show ?thesis by (simp only: tot n2 w2)
  qed
  ultimately show ?thesis using nn pos by (simp add: list_all_iff)
qed

text \<open>
  Claim C4, as the code has it. When the transformation succeeds (with
  \<open>required_tokens + 5000\<close> inside the range of \<open>int\<close>), the outgoing
  \<open>max_tokens\<close> is \<open>required_tokens + 5000\<close> if and only if \<open>max_tokens\<close> is
  present as a number whose integer part \<open>int(max_tokens)\<close> is above 5000 and above
  \<open>required_tokens + 5000\<close> and the model name does not contain \<open>2024-05-13\<close>; in
  every other case it is left as it was. The model field is dropped and every other
  field is kept.
\<close>

theorem TransformOpenAIToAzure_clamp:
  assumes ok: "TransformOpenAIToAzure te endpoint payload deploymentName = Inr result"
    and rng: "in64 (RequiredTokens result + 5000)"
  shows "\<exists>modelName. payload ''model'' = Some (JStr modelName)
           \<and> OriginalModel result = ToLower modelName
           \<and> Payload result ''max_tokens'' =
               (if (\<exists>x. payload ''max_tokens'' = Some (JNum x) \<and> 5000 < float_to_int x
                        \<and> RequiredTokens result + 5000 < float_to_int x)
                   \<and> \<not> Contains modelName ''2024-05-13''
                then Some (JInt (RequiredTokens result + 5000))
                else payload ''max_tokens'')
           \<and> Payload result ''model'' = None
           \<and> (\<forall>k. k \<noteq> ''max_tokens'' \<and> k \<noteq> ''model'' \<longrightarrow> Payload result k = payload k)"
proof -
  obtain modelName where m: "payload ''model'' = Some (JStr modelName)" and ne: "modelName \<noteq> []"
    using ok by (auto simp: TransformOpenAIToAzure_def split: option.splits json.splits if_splits)
  obtain r where est: "estimateTokens te endpoint (payload(''model'' := None)) modelName = Inr r"
    using ok m ne by (auto simp: TransformOpenAIToAzure_def Let_def split: sum.splits)
  define P where "P = (case (payload(''model'' := None)) ''max_tokens'' of
                          Some (JNum maxTokensFloat) \<Rightarrow>
                            let maxTokensInt = float_to_int maxTokensFloat in
                            if maxTokensInt > 5000
                               \<and> maxTokensInt > wrap64 (r + 5000)
                               \<and> \<not> Contains modelName ''2024-05-13''
                            then (payload(''model'' := None))(''max_tokens'' \<mapsto> JInt (wrap64 (r + 5000)))
                            else payload(''model'' := None)
                        | _ \<Rightarrow> payload(''model'' := None))"
  have "Inr \<lparr>OriginalModel = ToLower modelName, Payload = P, RequiredTokens = r,
               Endpoint = endpoint, Method = ''POST''\<rparr> = (Inr result :: error + TransformResult)"
    using ok m ne est by (simp add: TransformOpenAIToAzure_def Let_def P_def)
  then have res: "result = \<lparr>OriginalModel = ToLower modelName, Payload = P, RequiredTokens = r,
               Endpoint = endpoint, Method = ''POST''\<rparr>" by simp
  have w: "wrap64 (r + 5000) = r + 5000"
    using rng by (simp add: res wrap64_def in64_def)
  have mt: "(payload(''model'' := None)) ''max_tokens'' = payload ''max_tokens''" by simp
  have P1: "P ''model'' = None"
    by (simp add: P_def Let_def split: option.splits json.splits)
  have P2: "P k = payload k" if "k \<noteq> ''max_tokens''" "k \<noteq> ''model''" for k
    using that by (simp add: P_def Let_def split: option.splits json.splits)
  have P3: "P ''max_tokens'' =
               (if (\<exists>x. payload ''max_tokens'' = Some (JNum x) \<and> 5000 < float_to_int x
                        \<and> r + 5000 < float_to_int x)
                   \<and> \<not> Contains modelName ''2024-05-13''
                then Some (JInt (r + 5000))
                else payload ''max_tokens'')"
    unfolding P_def mt w
    by (cases "payload ''max_tokens''") (auto simp: Let_def split: json.splits)
  show ?thesis
  proof (intro exI conjI)
    show "payload ''model'' = Some (JStr modelName)" by (rule m)
    show "OriginalModel result = ToLower modelName" by (simp add: res)
    show "Payload result ''model'' = None" by (simp add: res P1)
    show "\<forall>k. k \<noteq> ''max_tokens'' \<and> k \<noteq> ''model'' \<longrightarrow> Payload result k = payload k"
      by (simp add: res P2)
    have "RequiredTokens result = r" "Payload result = P" by (simp_all add: res)
    then show "Payload result ''max_tokens'' =
               (if (\<exists>x. payload ''max_tokens'' = Some (JNum x) \<and> 5000 < float_to_int x
                        \<and> RequiredTokens result + 5000 < float_to_int x)
                   \<and> \<not> Contains modelName ''2024-05-13''
                then Some (JInt (RequiredTokens result + 5000))
                else payload ''max_tokens'')"
      by (simp only: P3)
  qed
qed

theorem TransformOpenAIToAzure_clamp_witness:
  "TransformOpenAIToAzure (fixed_estimator 2000) ''/v1/completions''
       (completion_payload ''gpt-4'' (JNum 50000)) ''gpt-4''
     = Inr \<lparr>OriginalModel = ''gpt-4'',
            Payload = [''prompt'' \<mapsto> JStr ''hi'', ''max_tokens'' \<mapsto> JInt 7000],
            RequiredTokens = 2000, Endpoint = ''/v1/completions'', Method = ''POST''\<rparr>
   \<and> in64 (2000 + 5000)
   \<and> (\<exists>x. completion_payload ''gpt-4'' (JNum 50000) ''max_tokens'' = Some (JNum x)
          \<and> 5000 < float_to_int x \<and> 2000 + 5000 < float_to_int x)
   \<and> \<not> Contains ''gpt-4'' ''2024-05-13''"
proof -
  let ?r = "\<lparr>OriginalModel = ''gpt-4'',
            Payload = [''prompt'' \<mapsto> JStr ''hi'', ''max_tokens'' \<mapsto> JInt 7000],
            RequiredTokens = 2000, Endpoint = ''/v1/completions'', Method = ''POST''\<rparr>"
  have ok: "TransformOpenAIToAzure (fixed_estimator 2000) ''/v1/completions''
       (completion_payload ''gpt-4'' (JNum 50000)) ''gpt-4'' = Inr ?r"
    by (simp add: TransformOpenAIToAzure_def estimateTokens_def fixed_estimator_def completion_payload_def
      float_to_int_def trunc_real_def in64_def wrap64_def Contains_def HasPrefix_def ToLower_def
      to_lower_char_def Let_def upt_conv_Cons fun_upd_twist)
  have rng: "in64 (RequiredTokens ?r + 5000)" by (simp add: in64_def)
  have c: "\<not> Contains ''gpt-4'' ''2024-05-13''"
    by (simp add: Contains_def HasPrefix_def upt_conv_Cons)
  have x: "\<exists>x. completion_payload ''gpt-4'' (JNum 50000) ''max_tokens'' = Some (JNum x)
          \<and> 5000 < float_to_int x \<and> 2000 + 5000 < float_to_int x"
    by (simp add: completion_payload_def float_to_int_def trunc_real_def in64_def)
  from TransformOpenAIToAzure_clamp [OF ok rng]
  have "\<exists>modelName. completion_payload ''gpt-4'' (JNum 50000) ''model'' = Some (JStr modelName)
          \<and> OriginalModel ?r = ToLower modelName" by blast
  then show ?thesis using ok rng c x by simp
qed

text \<open>
  The two requests of the example in claim C4: \<open>max_tokens = 50000\<close> with an estimate
  of 2000 becomes 7000 for \<open>gpt-4\<close> and stays 50000 for \<open>gpt-4o-2024-05-13\<close>.
\<close>

lemma TransformOpenAIToAzure_example_clamped:
  "map_option (\<lambda>r. Payload r ''max_tokens'')
     (case TransformOpenAIToAzure (fixed_estimator 2000) ''/v1/completions''
             (completion_payload ''gpt-4'' (JNum 50000)) ''gpt-4'' of
        Inl err \<Rightarrow> None | Inr r \<Rightarrow> Some r)
   = Some (Some (JInt 7000))"
  by (simp add: TransformOpenAIToAzure_def estimateTokens_def fixed_estimator_def completion_payload_def
      float_to_int_def trunc_real_def in64_def wrap64_def Contains_def HasPrefix_def ToLower_def
      to_lower_char_def Let_def upt_conv_Cons fun_upd_twist)

lemma TransformOpenAIToAzure_example_kept:
  "map_option (\<lambda>r. Payload r ''max_tokens'')
     (case TransformOpenAIToAzure (fixed_estimator 2000) ''/v1/completions''
             (completion_payload ''gpt-4o-2024-05-13'' (JNum 50000)) ''gpt-4o'' of
        Inl err \<Rightarrow> None | Inr r \<Rightarrow> Some r)
   = Some (Some (JNum 50000))"
  by (simp add: TransformOpenAIToAzure_def estimateTokens_def fixed_estimator_def completion_payload_def
      float_to_int_def trunc_real_def in64_def wrap64_def Contains_def HasPrefix_def ToLower_def
      to_lower_char_def Let_def upt_conv_Cons fun_upd_twist)

text \<open>
  Claim C4 as worded fails for a \<open>max_tokens\<close> with a fraction: 7000.5 is above 5000
  and above 2000 + 5000, and the code leaves it, since its integer part 7000 is not above
  7000.
\<close>

theorem TransformOpenAIToAzure_clamp_counterexample:
  "TransformOpenAIToAzure (fixed_estimator 2000) ''/v1/completions''
       (completion_payload ''gpt-4'' (JNum 7000.5)) ''gpt-4''
     = Inr \<lparr>OriginalModel = ''gpt-4'',
            Payload = [''prompt'' \<mapsto> JStr ''hi'', ''max_tokens'' \<mapsto> JNum 7000.5],
            RequiredTokens = 2000, Endpoint = ''/v1/completions'', Method = ''POST''\<rparr>
   \<and> (5000::real) < 7000.5 \<and> (2000::real) + 5000 < 7000.5"
  by (simp add: TransformOpenAIToAzure_def estimateTokens_def fixed_estimator_def completion_payload_def
      float_to_int_def trunc_real_def in64_def wrap64_def Contains_def HasPrefix_def ToLower_def
      to_lower_char_def Let_def upt_conv_Cons fun_upd_twist)

lemma ema_snoc:
  "ema (acc @ [x]) = Some (case ema acc of None \<Rightarrow> x | Some avg \<Rightarrow> 0.9 * avg + 0.1 * x)"
  by (cases acc) simp_all

lemma apply_op_avg:
  assumes "AvgLatencyMs state = ema acc"
  shows "AvgLatencyMs (apply_op op state) = ema (samples_after [op] acc)"
proof (cases op)
  case (Success tokens startTime now)
  then show ?thesis using assms
    by (simp add: usage_update_def Let_def ema_snoc elapsed_ms_def)
next
  case (Failure statusCode)
  then show ?thesis using assms by (simp add: error_update_def Let_def)
next
  case (Health result now)
  then show ?thesis using assms
    by (simp add: health_update_def split: option.splits)
qed

lemma samples_after_append:
  "samples_after (ops @ ops') acc = samples_after ops' (samples_after ops acc)"
  by (induction ops acc rule: samples_after.induct) simp_all

lemma fold_apply_op_avg:
  assumes "AvgLatencyMs state = ema acc"
  shows "AvgLatencyMs (fold apply_op ops state) = ema (samples_after ops acc)"
  using assms
proof (induction ops arbitrary: state acc)
  case Nil
  then show ?case by simp
next
  case (Cons op ops)
  have "AvgLatencyMs (apply_op op state) = ema (samples_after [op] acc)"
    using Cons.prems by (rule apply_op_avg)
  then have "AvgLatencyMs (fold apply_op ops (apply_op op state))
               = ema (samples_after ops (samples_after [op] acc))"
    by (rule Cons.IH)
  then show ?case
    using samples_after_append [of "[op]" ops acc] by simp
qed

lemma samples_after_no_probe:
  "\<not> list_ex healthy_probe ops \<Longrightarrow> samples_after ops acc = acc @ success_latencies ops"
proof (induction ops acc rule: samples_after.induct)
  case (4 result now ops acc)
  then show ?case by simp
qed simp_all

text \<open>
  Claim C5, as the code has it. After any history of a state from its creation, the
  stored average is the exponential moving average (smoothing 0.1, seeded at its first
  sample) of these samples: the probe latency of the last healthy health update, followed
  by the latencies of the successes recorded after it; it is absent when there is no
  sample. Without a healthy health update in the history the samples are the latencies
  of all the successes since creation. Success accounting, error accounting and an
  unhealthy health update keep this; a healthy health update starts the average again
  from the latency of its probe.
\<close>

theorem avg_latency_ema:
  "AvgLatencyMs (fold apply_op ops (NewInstanceState name created)) = ema (samples_after ops [])
   \<and> (\<not> list_ex healthy_probe ops \<longrightarrow>
        AvgLatencyMs (fold apply_op ops (NewInstanceState name created)) = ema (success_latencies ops))"
proof -
  have "AvgLatencyMs (NewInstanceState name created) = ema []"
    by (simp add: NewInstanceState_def)
  then have "AvgLatencyMs (fold apply_op ops (NewInstanceState name created)) = ema (samples_after ops [])"
    by (rule fold_apply_op_avg)
  then show ?thesis using samples_after_no_probe [of ops "[]"] by simp
qed

theorem avg_latency_ema_witness:
  "\<not> list_ex healthy_probe [Success 10 0 100000000, Failure 500, Success 10 0 200000000]
   \<and> AvgLatencyMs (fold apply_op [Success 10 0 100000000, Failure 500, Success 10 0 200000000]
         (NewInstanceState ''A'' 0)) = Some 110"
proof -
  let ?ops = "[Success 10 0 100000000, Failure 500, Success 10 0 200000000]"
  have np: "\<not> list_ex healthy_probe ?ops" by simp
  have e: "ema (success_latencies ?ops) = Some 110"
    by (simp add: elapsed_ms_def Milliseconds_def wrap64_def)
  from avg_latency_ema [of ?ops "''A''" 0] np
  have "AvgLatencyMs (fold apply_op ?ops (NewInstanceState ''A'' 0)) = ema (success_latencies ?ops)"
    by blast
  then show ?thesis using np e by simp
qed

text \<open>
  Claim C5 as worded fails at the health update: after one success of 100 ms and one
  health update of the sweeper (which reports every instance healthy after 50 ms), the
  stored average is 50, and the average of the latencies of the successes is 100.
\<close>

theorem avg_latency_health_counterexample:
  "AvgLatencyMs (fold apply_op
       [Success 10 0 100000000, Health (performSingleHealthCheck (azure_config ''A'' 1 1)) 200000000]
       (NewInstanceState ''A'' 0)) = Some 50
   \<and> ema (success_latencies
       [Success 10 0 100000000, Health (performSingleHealthCheck (azure_config ''A'' 1 1)) 200000000])
     = Some 100"
  by (simp add: usage_update_def health_update_def performSingleHealthCheck_def NewInstanceState_def
      Milliseconds_def wrap64_def elapsed_ms_def Let_def)

lemma CheckRateLimit_stateStore:
  "stateStore (snd (CheckRateLimit m w n tokens now)) = stateStore w"
  by (simp add: CheckRateLimit_def split: option.splits prod.splits)

lemma eligible_loop_stateStore:
  "stateStore (snd (eligible_loop m tokens now cfgs w)) = stateStore w"
proof (induction cfgs arbitrary: w)
  case Nil
  then show ?case by simp
next
  case (Cons cfg cfgs)
  show ?case
  proof (cases "GetInstanceState w (Name cfg) now")
    case (Inl err)
    then show ?thesis using Cons.IH [of w] by simp
  next
    case (Inr state)
    obtain hasCapacity err w' where c: "CheckRateLimit m w (Name cfg) tokens now = ((hasCapacity, err), w')"
      by (metis prod.exhaust)
    have s: "stateStore w' = stateStore w"
      using CheckRateLimit_stateStore [of m w "Name cfg" tokens now] c by simp
    show ?thesis
      using Inr c s Cons.IH [of w] Cons.IH [of w']
      by (auto split: prod.splits)
  qed
qed













lemmas select_eval = SelectInstanceForRequest_def prefilter_def modelSupported_def ToLower_def
  to_lower_char_def GetInstanceState_def Get_def CheckRateLimit_def IsHealthy_def
  selectByFailover_def insertionSortLessFunc_def first_name_def priority_less_def
  managerAB_def world_with_def azure_config_def NewInstanceState_def StatusHealthy_def
  StatusError_def failing_state_def recordError_def UpdateInstanceState_def Set_def
  error_update_def wrap64_def Let_def









lemma sendErrorResponse_status: "http_status (sendErrorResponse e) = StatusCode e"
  and sendErrorResponse_body: "\<exists>obj. http_body (sendErrorResponse e) = JSONBody obj"
  by (simp_all add: sendErrorResponse_def)











lemmas handler_eval = handleProxyRequest_def ValidateRequest_def model_of_def SelectInstance_def
  transform_request_def check_rate_limit_def call_backend_def relay_response_def
  GetInstanceConfig_def GetDeploymentName_def NewProxyHandler_def example_env_def
  TransformOpenAIToAzure_def estimateTokens_def fixed_estimator_def
  CleanRequestMetadata_def StreamRequest_def ProxyRequest_def streaming_backend_def
  streamResponse_def data_prefix_def done_marker_def TrimPrefix_def HasPrefix_def
  toy_unmarshal_def TransformAzureToOpenAI_def Contains_def recordUsage_def
  Manager_UpdateUsage_def usage_update_def streaming_request_def completion_payload_def
  sendErrorResponse_def NewUpstreamError_def GetRetryAfter_def ErrorType_string_def
  managerA_limited_def world_limited_def limiterA_def NewRateLimiter_def redis_with_def
  CheckCapacity_def check_pipeline_def ZRemRangeByScore_def Atoi_def split_colon_first_def
  is_digit_def digits_value_def in64_def Unix_def float_to_int_def trunc_real_def
  upt_conv_Cons





text \<open>
  Claim C2 at the request of scenario S2: instance \<open>A\<close> with \<open>max_tpm = 100\<close>, one
  window entry of 90 tokens written 10 seconds ago, and a request of 20 tokens. The
  limiter denies with a retry-after of 50. The handler answers 429 with the message
  \<open>rate limit exceeded\<close>, but the details of its error hold the instance and the
  tokens only, and the answer carries no \<open>Retry-After\<close> header: \<open>CheckRateLimit\<close>
  drops the retry-after that \<open>CheckCapacity\<close> computed.
\<close>

theorem rate_limit_denial_without_retry_after:
  "fst (handleProxyRequest (example_env 20 streaming_backend) (NewProxyHandler managerA_limited)
          (world_limited [(''90:1'', 990)]) ''/v1/completions''
          (Inr (completion_payload ''gpt-4'' (JNum 100))) 1000000000000 1000100000000)
     = Ok \<lparr>http_status = 429, http_headers = [],
           http_body = JSONBody [''error'' \<mapsto>
             JObj [(''message'', JStr ''rate limit exceeded''), (''type'', JStr ''upstream_error''),
                   (''code'', JInt 429)]]\<rparr>
   \<and> fst (CheckCapacity limiterA 1000 (redis_with [(''90:1'', 990)]) 20) = (False, 50, None)
   \<and> Details (NewUpstreamError ''rate limit exceeded'' 429
                [''instance'' \<mapsto> JStr ''A'', ''tokens'' \<mapsto> JInt 20] 1000)
       = Some [''instance'' \<mapsto> JStr ''A'', ''tokens'' \<mapsto> JInt 20]"
  by (simp add: handler_eval select_eval)


end
